theory Spec2Isabelle
  imports Main "HOL-Library.Code_Target_Numeral"
begin

section \<open>The relational store\<close>

text \<open>
  The tables of \<^verbatim>\<open>config/database.js\<close>, one record per row, with the columns the
  handlers read or write. Serial ids and counters are PostgreSQL integers, modelled as
  \<^typ>\<open>int\<close> with the range of the column checked where a statement binds or computes
  a value; timestamps are seconds on an integer clock.
\<close>

text \<open>
  The values of an \<^verbatim>\<open>INTEGER\<close> column (\<^verbatim>\<open>SERIAL\<close> ids, the counters) and of a
  \<^verbatim>\<open>BIGINT\<close> (the operands of \<^verbatim>\<open>LIMIT\<close> and \<^verbatim>\<open>OFFSET\<close>). A statement whose
  parameter or result falls outside is rejected.
\<close>

definition int4 :: "int \<Rightarrow> bool" where
  "int4 i = (- 2147483648 \<le> i \<and> i \<le> 2147483647)"

definition int8 :: "int \<Rightarrow> bool" where
  "int8 i = (- 9223372036854775808 \<le> i \<and> i \<le> 9223372036854775807)"

text \<open>A text value: PostgreSQL rejects a string that holds the character with code 0.\<close>

definition pg_text :: "string \<Rightarrow> bool" where
  "pg_text s = (CHR 0x00 \<notin> set s)"

record user =
  u_id :: int
  username :: string
  is_active :: bool

record post =
  p_id :: int
  p_user_id :: int
  caption :: string
  image_url :: "string option"
  likes_count :: int
  comments_count :: int
  group_id :: "int option"
  p_created_at :: int

record like =
  l_user_id :: int
  l_post_id :: int

record comment =
  c_id :: int
  c_user_id :: int
  c_post_id :: int
  comment_text :: string

datatype role = admin | member

record grp =
  g_id :: int
  g_name :: string
  is_private :: bool
  owner_id :: int
  members_count :: int

record group_member =
  m_group_id :: int
  m_user_id :: int
  m_role :: role

record follower =
  follower_id :: int
  following_id :: int

record refresh_token =
  rt_user_id :: int
  token :: string
  expires_at :: int

record database =
  users :: "user list"
  posts :: "post list"
  likes :: "like list"
  comments :: "comment list"
  groups :: "grp list"
  group_members :: "group_member list"
  followers :: "follower list"
  refresh_tokens :: "refresh_token list"
  posts_seq :: int
  comments_seq :: int
  groups_seq :: int

section \<open>Requests, responses and the world a handler runs in\<close>

text \<open>The \<^verbatim>\<open>data\<close> of a response, where the handlers modelled here send one.\<close>

datatype payload =
  NoData
  | PostData post
  | Feed "(post \<times> bool) list"
  | PostPage "post list" int
  | CommentData comment
  | GroupData grp

text \<open>\<^verbatim>\<open>res.status(s).json({success, message, data})\<close>.\<close>

datatype response = Reply (status: nat) (success: bool) (message: string) (data: payload)

datatype event = Checkout | Checkin | Statement | Upload | Destroy

text \<open>
  A handler runs against the committed store through the connection pool. \<open>txn\<close> is the
  working copy of the transaction open on the client the handler checked out;
  \<open>faults\<close> scripts the database: its head tells whether the next awaited database call
  rejects (connection loss, timeout), and an exhausted script means no further fault.
  \<open>trace\<close> records pool check-outs, check-ins, statements and media calls in order.
\<close>

record world =
  store :: database
  txn :: "database option"
  faults :: "bool list"
  clock :: int
  trace :: "event list"

datatype 'a outcome = Thrown | Done 'a

definition tick :: "world \<Rightarrow> bool \<times> world" where
  "tick w = (case faults w of [] \<Rightarrow> (False, w) | b # bs \<Rightarrow> (b, w\<lparr>faults := bs\<rparr>))"

definition emit :: "event \<Rightarrow> world \<Rightarrow> world" where
  "emit e w = w\<lparr>trace := trace w @ [e]\<rparr>"

text \<open>
  \<^verbatim>\<open>pool.query(sql)\<close>: one statement in autocommit on a connection of the pool's
  own. A statement is a function on the store that returns its rows and the new store, or
  \<open>None\<close> when a constraint rejects it.
\<close>

definition pool_query ::
  "(database \<Rightarrow> ('a \<times> database) option) \<Rightarrow> world \<Rightarrow> 'a outcome \<times> world" where
  "pool_query q w =
     (case tick (emit Statement w) of
        (True, w1) \<Rightarrow> (Thrown, w1)
      | (False, w1) \<Rightarrow>
          (case q (store w1) of
             None \<Rightarrow> (Thrown, w1)
           | Some (r, d) \<Rightarrow> (Done r, w1\<lparr>store := d\<rparr>)))"

text \<open>\<^verbatim>\<open>pool.connect()\<close> and \<^verbatim>\<open>client.release()\<close>.\<close>

definition pool_connect :: "world \<Rightarrow> unit outcome \<times> world" where
  "pool_connect w =
     (case tick w of
        (True, w1) \<Rightarrow> (Thrown, w1)
      | (False, w1) \<Rightarrow> (Done (), emit Checkout w1))"

text \<open>
  The client goes back to the pool as it is: \<^verbatim>\<open>release()\<close> sends nothing to the
  server, and a transaction still open on the client stays open.
\<close>

definition client_release :: "world \<Rightarrow> world" where
  "client_release w = emit Checkin w"

text \<open>
  \<^verbatim>\<open>client.query(sql)\<close>: inside a transaction the statement works on the
  transaction's copy, outside one it is autocommitted.
\<close>

definition client_query ::
  "(database \<Rightarrow> ('a \<times> database) option) \<Rightarrow> world \<Rightarrow> 'a outcome \<times> world" where
  "client_query q w =
     (case tick (emit Statement w) of
        (True, w1) \<Rightarrow> (Thrown, w1)
      | (False, w1) \<Rightarrow>
          (case txn w1 of
             None \<Rightarrow>
               (case q (store w1) of
                  None \<Rightarrow> (Thrown, w1)
                | Some (r, d) \<Rightarrow> (Done r, w1\<lparr>store := d\<rparr>))
           | Some t \<Rightarrow>
               (case q t of
                  None \<Rightarrow> (Thrown, w1)
                | Some (r, d) \<Rightarrow> (Done r, w1\<lparr>txn := Some d\<rparr>))))"

text \<open>\<^verbatim>\<open>client.query('BEGIN')\<close> and \<^verbatim>\<open>client.query('COMMIT')\<close>.\<close>

definition tx_begin :: "world \<Rightarrow> unit outcome \<times> world" where
  "tx_begin w =
     (case tick (emit Statement w) of
        (True, w1) \<Rightarrow> (Thrown, w1)
      | (False, w1) \<Rightarrow>
          (case txn w1 of
             None \<Rightarrow> (Done (), w1\<lparr>txn := Some (store w1)\<rparr>)
           | Some t \<Rightarrow> (Done (), w1)))"

definition tx_commit :: "world \<Rightarrow> unit outcome \<times> world" where
  "tx_commit w =
     (case tick (emit Statement w) of
        (True, w1) \<Rightarrow> (Thrown, w1)
      | (False, w1) \<Rightarrow>
          (case txn w1 of
             None \<Rightarrow> (Done (), w1)
           | Some t \<Rightarrow> (Done (), w1\<lparr>store := t, txn := None\<rparr>)))"

text \<open>
  \<^verbatim>\<open>ROLLBACK\<close> discards the working copy. It has no constraint to violate: it
  rejects only when the session is lost, and the server aborts the open transaction of a
  lost session.
\<close>

definition tx_rollback :: "world \<Rightarrow> unit outcome \<times> world" where
  "tx_rollback w =
     (case tick (emit Statement w) of
        (True, w1) \<Rightarrow> (Thrown, w1\<lparr>txn := None\<rparr>)
      | (False, w1) \<Rightarrow> (Done (), w1\<lparr>txn := None\<rparr>))"

section \<open>Session middleware (\<^verbatim>\<open>middleware/auth.js\<close>)\<close>

text \<open>The decoded payload of a token minted by \<^verbatim>\<open>generateTokens\<close>: \<^verbatim>\<open>{ userId }\<close>.\<close>

record jwt_payload =
  userId :: int

text \<open>
  \<^verbatim>\<open>jwt.verify\<close> belongs to the \<^verbatim>\<open>jsonwebtoken\<close> library; it is a parameter
  \<open>jwt\<close> of the model: \<open>jwt token secret\<close> is the decoded payload, or \<open>None\<close> where the
  library throws (bad signature, malformed, expired) and \<^verbatim>\<open>verifyToken\<close> returns null.
\<close>

type_synonym verifier = "string \<Rightarrow> string \<Rightarrow> jwt_payload option"

definition verifyToken :: "verifier \<Rightarrow> string \<Rightarrow> string \<Rightarrow> jwt_payload option" where
  "verifyToken jwt tok secret = jwt tok secret"

text \<open>\<^verbatim>\<open>process.env.X || fallback\<close>: an unset or empty variable gives the fallback.\<close>

definition env_or :: "string option \<Rightarrow> string \<Rightarrow> string" where
  "env_or v fallback = (case v of None \<Rightarrow> fallback | Some s \<Rightarrow> if s = [] then fallback else s)"








section \<open>Content manager (\<^verbatim>\<open>routes/posts.js\<close>)\<close>

subsection \<open>Statements\<close>

text \<open>
  Each statement is named after what it does and quotes its SQL. A route parameter
  (\<^verbatim>\<open>:postId\<close>, \<^verbatim>\<open>:commentId\<close>) is the integer its digits denote; compared with
  an \<^verbatim>\<open>INTEGER\<close> column it is bound as an \<^verbatim>\<open>INTEGER\<close>, and the statement is
  rejected when it is out of range. \<^verbatim>\<open>req.user.id\<close> is the id of the row the
  middleware read; the inserts check \<^verbatim>\<open>user_id REFERENCES users(id)\<close> against the
  store all the same.
\<close>

text \<open>Some row of \<^verbatim>\<open>users\<close> has this id.\<close>

definition user_exists :: "int \<Rightarrow> database \<Rightarrow> bool" where
  "user_exists uid d = (filter (\<lambda>u. u_id u = uid) (users d) \<noteq> [])"

text \<open>\<^verbatim>\<open>SELECT id FROM posts WHERE id = $1\<close> (also with \<^verbatim>\<open>user_id, image_url\<close>)\<close>

definition select_post_by_id :: "int \<Rightarrow> database \<Rightarrow> (post list \<times> database) option" where
  "select_post_by_id postId d =
     (if \<not> int4 postId then None
      else Some (filter (\<lambda>p. p_id p = postId) (posts d), d))"

text \<open>\<^verbatim>\<open>SELECT id FROM likes WHERE user_id = $1 AND post_id = $2\<close>\<close>

definition select_like :: "int \<Rightarrow> int \<Rightarrow> database \<Rightarrow> (like list \<times> database) option" where
  "select_like uid postId d =
     (if \<not> int4 postId then None
      else Some (filter (\<lambda>l. l_user_id l = uid \<and> l_post_id l = postId) (likes d), d))"

text \<open>
  \<^verbatim>\<open>INSERT INTO likes (user_id, post_id) VALUES ($1, $2)\<close>, under
  \<^verbatim>\<open>UNIQUE(user_id, post_id)\<close>, \<^verbatim>\<open>user_id REFERENCES users(id)\<close> and
  \<^verbatim>\<open>post_id REFERENCES posts(id)\<close>.
\<close>

definition insert_like :: "int \<Rightarrow> int \<Rightarrow> database \<Rightarrow> (unit \<times> database) option" where
  "insert_like uid postId d =
     (if \<not> int4 postId then None
      else if filter (\<lambda>l. l_user_id l = uid \<and> l_post_id l = postId) (likes d) \<noteq> [] then None
      else if \<not> user_exists uid d then None
      else if filter (\<lambda>p. p_id p = postId) (posts d) = [] then None
      else Some ((), d\<lparr>likes := likes d @ [\<lparr>l_user_id = uid, l_post_id = postId\<rparr>]\<rparr>))"

text \<open>
  \<^verbatim>\<open>UPDATE posts SET likes_count = likes_count + 1 WHERE id = $1\<close>; the sum must
  fit the \<^verbatim>\<open>INTEGER\<close> column.
\<close>

definition increment_likes :: "int \<Rightarrow> database \<Rightarrow> (unit \<times> database) option" where
  "increment_likes postId d =
     (if \<not> int4 postId then None
      else if list_ex (\<lambda>p. p_id p = postId \<and> \<not> int4 (likes_count p + 1)) (posts d) then None
      else Some ((), d\<lparr>posts := map (\<lambda>p. if p_id p = postId
                                    then p\<lparr>likes_count := likes_count p + 1\<rparr> else p) (posts d)\<rparr>))"

text \<open>\<^verbatim>\<open>DELETE FROM likes WHERE user_id = $1 AND post_id = $2\<close>, returning \<^verbatim>\<open>rowCount\<close>\<close>

definition delete_like :: "int \<Rightarrow> int \<Rightarrow> database \<Rightarrow> (nat \<times> database) option" where
  "delete_like uid postId d =
     (if \<not> int4 postId then None
      else
        Some (length (filter (\<lambda>l. l_user_id l = uid \<and> l_post_id l = postId) (likes d)),
              d\<lparr>likes := filter (\<lambda>l. \<not> (l_user_id l = uid \<and> l_post_id l = postId)) (likes d)\<rparr>))"

text \<open>\<^verbatim>\<open>UPDATE posts SET likes_count = GREATEST(likes_count - 1, 0) WHERE id = $1\<close>\<close>

definition decrement_likes :: "int \<Rightarrow> database \<Rightarrow> (unit \<times> database) option" where
  "decrement_likes postId d =
     (if \<not> int4 postId then None
      else Some ((), d\<lparr>posts := map (\<lambda>p. if p_id p = postId
                                    then p\<lparr>likes_count := max (likes_count p - 1) 0\<rparr>
                                    else p) (posts d)\<rparr>))"

text \<open>
  \<^verbatim>\<open>INSERT INTO comments (user_id, post_id, comment_text) VALUES ($1, $2, $3)
  RETURNING ...\<close>, the id drawn from the table's sequence (an \<^verbatim>\<open>INTEGER\<close>
  sequence, which fails once exhausted), under \<^verbatim>\<open>user_id REFERENCES users(id)\<close> and
  \<^verbatim>\<open>post_id REFERENCES posts(id)\<close>.
\<close>

definition insert_comment ::
  "int \<Rightarrow> int \<Rightarrow> string \<Rightarrow> database \<Rightarrow> (comment \<times> database) option" where
  "insert_comment uid postId txt d =
     (if \<not> int4 postId \<or> \<not> pg_text txt \<or> \<not> int4 (comments_seq d + 1) then None
      else if \<not> user_exists uid d then None
      else if filter (\<lambda>p. p_id p = postId) (posts d) = [] then None
      else
        (let c = \<lparr>c_id = comments_seq d + 1, c_user_id = uid, c_post_id = postId,
                  comment_text = txt\<rparr>
         in Some (c, d\<lparr>comments := comments d @ [c], comments_seq := comments_seq d + 1\<rparr>)))"

text \<open>
  \<^verbatim>\<open>UPDATE posts SET comments_count = comments_count + 1 WHERE id = $1\<close>; the sum
  must fit the \<^verbatim>\<open>INTEGER\<close> column.
\<close>

definition increment_comments :: "int \<Rightarrow> database \<Rightarrow> (unit \<times> database) option" where
  "increment_comments postId d =
     (if \<not> int4 postId then None
      else if list_ex (\<lambda>p. p_id p = postId \<and> \<not> int4 (comments_count p + 1)) (posts d)
      then None
      else Some ((), d\<lparr>posts := map (\<lambda>p. if p_id p = postId
                                    then p\<lparr>comments_count := comments_count p + 1\<rparr>
                                    else p) (posts d)\<rparr>))"

text \<open>\<^verbatim>\<open>SELECT user_id, post_id FROM comments WHERE id = $1\<close>\<close>

definition select_comment_by_id ::
  "int \<Rightarrow> database \<Rightarrow> (comment list \<times> database) option" where
  "select_comment_by_id commentId d =
     (if \<not> int4 commentId then None
      else Some (filter (\<lambda>c. c_id c = commentId) (comments d), d))"

text \<open>\<^verbatim>\<open>DELETE FROM comments WHERE id = $1\<close>\<close>

definition delete_comment :: "int \<Rightarrow> database \<Rightarrow> (unit \<times> database) option" where
  "delete_comment commentId d =
     (if \<not> int4 commentId then None
      else Some ((), d\<lparr>comments := filter (\<lambda>c. c_id c \<noteq> commentId) (comments d)\<rparr>))"

text \<open>\<^verbatim>\<open>UPDATE posts SET comments_count = GREATEST(comments_count - 1, 0) WHERE id = $1\<close>\<close>

definition decrement_comments :: "int \<Rightarrow> database \<Rightarrow> (unit \<times> database) option" where
  "decrement_comments postId d =
     (if \<not> int4 postId then None
      else Some ((), d\<lparr>posts := map (\<lambda>p. if p_id p = postId
                                    then p\<lparr>comments_count := max (comments_count p - 1) 0\<rparr>
                                    else p) (posts d)\<rparr>))"

text \<open>
  \<^verbatim>\<open>INSERT INTO posts (user_id, caption, image_url[, group_id]) VALUES (...)
  RETURNING ...\<close>: the id from the sequence (an \<^verbatim>\<open>INTEGER\<close> sequence, which fails
  once exhausted), both counters at their default 0, \<^verbatim>\<open>created_at\<close> the current
  timestamp; \<^verbatim>\<open>image_url VARCHAR(255)\<close> rejects a longer value, and
  \<^verbatim>\<open>user_id REFERENCES users(id)\<close> a user that is no row.
\<close>

definition insert_post ::
  "int \<Rightarrow> string \<Rightarrow> string option \<Rightarrow> int option \<Rightarrow> int \<Rightarrow> database
     \<Rightarrow> (post \<times> database) option" where
  "insert_post uid cap url gid now d =
     (if (case url of None \<Rightarrow> False | Some s \<Rightarrow> 255 < length s \<or> \<not> pg_text s) then None
      else if \<not> pg_text cap \<or> \<not> int4 (posts_seq d + 1) then None
      else if \<not> user_exists uid d then None
      else
        (let p = \<lparr>p_id = posts_seq d + 1, p_user_id = uid, caption = cap, image_url = url,
                  likes_count = 0, comments_count = 0, group_id = gid, p_created_at = now\<rparr>
         in Some (p, d\<lparr>posts := posts d @ [p], posts_seq := posts_seq d + 1\<rparr>)))"

text \<open>
  \<^verbatim>\<open>DELETE FROM posts WHERE id = $1\<close>; the likes and comments of the post go with it
  (\<^verbatim>\<open>post_id ... REFERENCES posts(id) ON DELETE CASCADE\<close>).
\<close>

definition delete_post :: "int \<Rightarrow> database \<Rightarrow> (unit \<times> database) option" where
  "delete_post postId d =
     (if \<not> int4 postId then None
      else Some ((), d\<lparr>posts := filter (\<lambda>p. p_id p \<noteq> postId) (posts d),
                 likes := filter (\<lambda>l. l_post_id l \<noteq> postId) (likes d),
                 comments := filter (\<lambda>c. c_post_id c \<noteq> postId) (comments d)\<rparr>))"

subsection \<open>Transactional handlers\<close>

text \<open>
  A handler returns the response it sent, or \<open>None\<close> when its promise rejected before
  any response was sent, and the world it leaves.
\<close>

definition internal_error :: response where
  "internal_error = Reply 500 False ''Internal server error'' NoData"

text \<open>
  The \<^verbatim>\<open>catch\<close> and \<^verbatim>\<open>finally\<close> blocks the transactional handlers share:
  \<^verbatim>\<open>await client.query('ROLLBACK'); res.status(500).json(...)\<close>, then
  \<^verbatim>\<open>client.release()\<close>. A rollback that itself rejects leaves the request unanswered.
\<close>

definition rollback_500 :: "world \<Rightarrow> response option \<times> world" where
  "rollback_500 w =
     (case tx_rollback w of
        (Thrown, w1) \<Rightarrow> (None, client_release w1)
      | (Done u, w1) \<Rightarrow> (Some internal_error, client_release w1))"

text \<open>
  An early exit inside the \<^verbatim>\<open>try\<close>:
  \<^verbatim>\<open>await client.query('ROLLBACK'); return res.status(s).json(...)\<close>.
\<close>

definition rollback_reply :: "response \<Rightarrow> world \<Rightarrow> response option \<times> world" where
  "rollback_reply r w =
     (case tx_rollback w of
        (Thrown, w1) \<Rightarrow> rollback_500 w1
      | (Done u, w1) \<Rightarrow> (Some r, client_release w1))"

text \<open>\<^verbatim>\<open>POST /:postId/like\<close>\<close>

definition like_post :: "int \<Rightarrow> int \<Rightarrow> world \<Rightarrow> response option \<times> world" where
  "like_post uid postId w =
     (case pool_connect w of
        (Thrown, w0) \<Rightarrow> (None, w0)
      | (Done u0, w0) \<Rightarrow>
     (case tx_begin w0 of
        (Thrown, w1) \<Rightarrow> rollback_500 w1
      | (Done u1, w1) \<Rightarrow>
     (case client_query (select_post_by_id postId) w1 of
        (Thrown, w2) \<Rightarrow> rollback_500 w2
      | (Done postResult, w2) \<Rightarrow>
          if postResult = [] then rollback_reply (Reply 404 False ''Post not found'' NoData) w2
          else
     (case client_query (select_like uid postId) w2 of
        (Thrown, w3) \<Rightarrow> rollback_500 w3
      | (Done likeResult, w3) \<Rightarrow>
          if likeResult \<noteq> [] then
            rollback_reply (Reply 409 False ''Post already liked'' NoData) w3
          else
     (case client_query (insert_like uid postId) w3 of
        (Thrown, w4) \<Rightarrow> rollback_500 w4
      | (Done u4, w4) \<Rightarrow>
     (case client_query (increment_likes postId) w4 of
        (Thrown, w5) \<Rightarrow> rollback_500 w5
      | (Done u5, w5) \<Rightarrow>
     (case tx_commit w5 of
        (Thrown, w6) \<Rightarrow> rollback_500 w6
      | (Done u6, w6) \<Rightarrow>
          (Some (Reply 200 True ''Post liked successfully'' NoData), client_release w6))))))))"

text \<open>\<^verbatim>\<open>DELETE /:postId/like\<close>\<close>

definition unlike_post :: "int \<Rightarrow> int \<Rightarrow> world \<Rightarrow> response option \<times> world" where
  "unlike_post uid postId w =
     (case pool_connect w of
        (Thrown, w0) \<Rightarrow> (None, w0)
      | (Done u0, w0) \<Rightarrow>
     (case tx_begin w0 of
        (Thrown, w1) \<Rightarrow> rollback_500 w1
      | (Done u1, w1) \<Rightarrow>
     (case client_query (delete_like uid postId) w1 of
        (Thrown, w2) \<Rightarrow> rollback_500 w2
      | (Done rowCount, w2) \<Rightarrow>
          if rowCount = 0 then rollback_reply (Reply 404 False ''Like not found'' NoData) w2
          else
     (case client_query (decrement_likes postId) w2 of
        (Thrown, w3) \<Rightarrow> rollback_500 w3
      | (Done u3, w3) \<Rightarrow>
     (case tx_commit w3 of
        (Thrown, w4) \<Rightarrow> rollback_500 w4
      | (Done u4, w4) \<Rightarrow>
          (Some (Reply 200 True ''Post unliked successfully'' NoData), client_release w4))))))"

text \<open>
  \<^verbatim>\<open>commentValidation\<close>: \<^verbatim>\<open>notEmpty()\<close> and \<^verbatim>\<open>isLength({ min: 1, max: 500 })\<close>
  on \<^verbatim>\<open>req.body.commentText\<close>.
\<close>

definition commentValidation :: "string option \<Rightarrow> bool" where
  "commentValidation commentText =
     (case commentText of None \<Rightarrow> False | Some s \<Rightarrow> s \<noteq> [] \<and> 1 \<le> length s \<and> length s \<le> 500)"

text \<open>\<^verbatim>\<open>POST /:postId/comments\<close>\<close>

definition add_comment ::
  "int \<Rightarrow> int \<Rightarrow> string option \<Rightarrow> world \<Rightarrow> response option \<times> world" where
  "add_comment uid postId commentText w =
     (case pool_connect w of
        (Thrown, w0) \<Rightarrow> (None, w0)
      | (Done u0, w0) \<Rightarrow>
          if \<not> commentValidation commentText then
            (Some (Reply 400 False ''Validation failed'' NoData), client_release w0)
          else
     (case tx_begin w0 of
        (Thrown, w1) \<Rightarrow> rollback_500 w1
      | (Done u1, w1) \<Rightarrow>
     (case client_query (select_post_by_id postId) w1 of
        (Thrown, w2) \<Rightarrow> rollback_500 w2
      | (Done postResult, w2) \<Rightarrow>
          if postResult = [] then rollback_reply (Reply 404 False ''Post not found'' NoData) w2
          else
     (case client_query (insert_comment uid postId (case commentText of None \<Rightarrow> [] | Some s \<Rightarrow> s)) w2 of
        (Thrown, w3) \<Rightarrow> rollback_500 w3
      | (Done c, w3) \<Rightarrow>
     (case client_query (increment_comments postId) w3 of
        (Thrown, w4) \<Rightarrow> rollback_500 w4
      | (Done u4, w4) \<Rightarrow>
     (case tx_commit w4 of
        (Thrown, w5) \<Rightarrow> rollback_500 w5
      | (Done u5, w5) \<Rightarrow>
          (Some (Reply 201 True ''Comment added successfully'' (CommentData c)),
           client_release w5)))))))"

text \<open>
  \<^verbatim>\<open>DELETE /:postId/comments/:commentId\<close>. The comment is looked up by
  \<^verbatim>\<open>commentId\<close> alone; the counter update names the \<^verbatim>\<open>postId\<close> of the route.
\<close>

definition delete_comment_handler ::
  "int \<Rightarrow> int \<Rightarrow> int \<Rightarrow> world \<Rightarrow> response option \<times> world" where
  "delete_comment_handler uid postId commentId w =
     (case pool_connect w of
        (Thrown, w0) \<Rightarrow> (None, w0)
      | (Done u0, w0) \<Rightarrow>
     (case tx_begin w0 of
        (Thrown, w1) \<Rightarrow> rollback_500 w1
      | (Done u1, w1) \<Rightarrow>
     (case client_query (select_comment_by_id commentId) w1 of
        (Thrown, w2) \<Rightarrow> rollback_500 w2
      | (Done commentResult, w2) \<Rightarrow>
          (case commentResult of
             [] \<Rightarrow> rollback_reply (Reply 404 False ''Comment not found'' NoData) w2
           | c # others \<Rightarrow>
               if c_user_id c \<noteq> uid then
                 rollback_reply (Reply 403 False ''Not authorized to delete this comment'' NoData) w2
               else
     (case client_query (delete_comment commentId) w2 of
        (Thrown, w3) \<Rightarrow> rollback_500 w3
      | (Done u3, w3) \<Rightarrow>
     (case client_query (decrement_comments postId) w3 of
        (Thrown, w4) \<Rightarrow> rollback_500 w4
      | (Done u4, w4) \<Rightarrow>
     (case tx_commit w4 of
        (Thrown, w5) \<Rightarrow> rollback_500 w5
      | (Done u5, w5) \<Rightarrow>
          (Some (Reply 200 True ''Comment deleted successfully'' NoData),
           client_release w5))))))))"

subsection \<open>Media collaborator (\<^verbatim>\<open>utils/cloudinaryUpload.js\<close>)\<close>

text \<open>
  The Cloudinary service is outside the program: what a call to it yields is an input of
  the model. An upload resolves with the \<^verbatim>\<open>secure_url\<close> or rejects with an error
  object, of which the handlers read \<^verbatim>\<open>http_code\<close> only.
\<close>

record media_error =
  http_code :: "nat option"

definition uploadToCloudinary ::
  "media_error + string \<Rightarrow> world \<Rightarrow> (media_error + string) \<times> world" where
  "uploadToCloudinary cloud w = (cloud, emit Upload w)"

text \<open>\<^verbatim>\<open>deleteFromCloudinary\<close> rethrows what \<^verbatim>\<open>uploader.destroy\<close> throws.\<close>

definition deleteFromCloudinary :: "bool \<Rightarrow> world \<Rightarrow> unit outcome \<times> world" where
  "deleteFromCloudinary destroyed w =
     (if destroyed then (Done (), emit Destroy w) else (Thrown, emit Destroy w))"

definition is_digit :: "char \<Rightarrow> bool" where
  "is_digit c = (c \<in> set ''0123456789'')"

definition is_word :: "char \<Rightarrow> bool" where
  "is_word c =
     (c \<in> set ''abcdefghijklmnopqrstuvwxyzABCDEFGHIJKLMNOPQRSTUVWXYZ0123456789_'')"

text \<open>The regular expression's \<^verbatim>\<open>.\<close> matches any character but a line terminator.\<close>

definition is_dot :: "char \<Rightarrow> bool" where
  "is_dot c = (c \<noteq> CHR 0x0A \<and> c \<noteq> CHR 0x0D)"

text \<open>
  \<^verbatim>\<open>(.+)\.\w+$\<close> against the rest of the string: the extension has no dot, so the
  literal dot is the last one, and the greedy group is all that precedes it.
\<close>

definition match_tail :: "string \<Rightarrow> string option" where
  "match_tail rest =
     (let ext = rev (takeWhile (\<lambda>c. c \<noteq> CHR ''.'') (rev rest));
          front = dropWhile (\<lambda>c. c \<noteq> CHR ''.'') (rev rest)
      in (case front of
            [] \<Rightarrow> None
          | dot # body \<Rightarrow>
              if ext \<noteq> [] \<and> list_all is_word ext \<and> body \<noteq> [] \<and> list_all is_dot body
              then Some (rev body) else None))"

text \<open>\<^verbatim>\<open>\/v\d+\/\<close> at the head of the string, then the tail.\<close>

definition match_here :: "string \<Rightarrow> string option" where
  "match_here s =
     (case s of
        a # b # r \<Rightarrow>
          if a = CHR ''/'' \<and> b = CHR ''v'' \<and> takeWhile is_digit r \<noteq> [] then
            (case dropWhile is_digit r of
               [] \<Rightarrow> None
             | c # rest \<Rightarrow> if c = CHR ''/'' then match_tail rest else None)
          else None
      | _ \<Rightarrow> None)"

text \<open>\<^verbatim>\<open>url.match(...)\<close>: the leftmost position where the expression matches.\<close>

fun match_first :: "string \<Rightarrow> string option" where
  "match_first [] = match_here []"
| "match_first (x # xs) =
     (case match_here (x # xs) of
        Some r \<Rightarrow> Some r
      | None \<Rightarrow> match_first xs)"

definition extractPublicId :: "string option \<Rightarrow> string option" where
  "extractPublicId url =
     (case url of
        None \<Rightarrow> None
      | Some s \<Rightarrow> if s = [] then None else match_first s)"

text \<open>
  The best-effort clean-up of both delete handlers:
  \<^verbatim>\<open>try { const publicId = extractPublicId(url); if (publicId) await
  deleteFromCloudinary(publicId) } catch (e) { }\<close>.
\<close>

definition cleanup_image :: "string option \<Rightarrow> bool \<Rightarrow> world \<Rightarrow> world" where
  "cleanup_image url destroyed w =
     (case extractPublicId url of
        None \<Rightarrow> w
      | Some publicId \<Rightarrow>
          (case deleteFromCloudinary destroyed w of
             (Thrown, w1) \<Rightarrow> w1
           | (Done u, w1) \<Rightarrow> w1))"

subsection \<open>Posts\<close>

text \<open>
  \<^verbatim>\<open>createPostValidation\<close>: \<^verbatim>\<open>body('caption').optional().isLength({ max: 2200 })\<close>.
\<close>

definition createPostValidation :: "string option \<Rightarrow> bool" where
  "createPostValidation cap = (case cap of None \<Rightarrow> True | Some s \<Rightarrow> length s \<le> 2200)"

text \<open>\<^verbatim>\<open>caption || ''\<close>\<close>

definition caption_or_empty :: "string option \<Rightarrow> string" where
  "caption_or_empty cap = (case cap of None \<Rightarrow> [] | Some s \<Rightarrow> s)"

text \<open>\<^verbatim>\<open>if (error.http_code)\<close>\<close>

definition has_http_code :: "media_error \<Rightarrow> bool" where
  "has_http_code e = (case http_code e of None \<Rightarrow> False | Some n \<Rightarrow> n \<noteq> 0)"

text \<open>
  \<^verbatim>\<open>POST /\<close> after \<^verbatim>\<open>authenticateToken\<close> and the multipart parser: \<open>cap\<close> is
  \<^verbatim>\<open>req.body.caption\<close>, \<open>file\<close> the buffer of \<^verbatim>\<open>req.file\<close>, \<open>cloud\<close> what the
  upload yields. One \<^verbatim>\<open>catch\<close> serves the upload and the insert.
\<close>

definition create_post ::
  "int \<Rightarrow> string option \<Rightarrow> string option \<Rightarrow> media_error + string \<Rightarrow> world
     \<Rightarrow> response option \<times> world" where
  "create_post uid cap file cloud w =
     (if \<not> createPostValidation cap then
        (Some (Reply 400 False ''Validation failed'' NoData), w)
      else if file = None then
        (Some (Reply 400 False ''Image file is required'' NoData), w)
      else
        (case uploadToCloudinary cloud w of
           (Inl error, w1) \<Rightarrow>
             if has_http_code error then
               (Some (Reply 500 False ''Failed to upload image to cloud storage'' NoData), w1)
             else (Some internal_error, w1)
         | (Inr imageUrl, w1) \<Rightarrow>
             (case pool_query (insert_post uid (caption_or_empty cap) (Some imageUrl) None
                                 (clock w1)) w1 of
                (Thrown, w2) \<Rightarrow> (Some internal_error, w2)
              | (Done p, w2) \<Rightarrow>
                  (Some (Reply 201 True ''Post created successfully'' (PostData p)), w2))))"

text \<open>\<^verbatim>\<open>DELETE /:postId\<close>; \<open>destroyed\<close> tells whether the media deletion succeeds.\<close>

definition delete_post_handler ::
  "int \<Rightarrow> int \<Rightarrow> bool \<Rightarrow> world \<Rightarrow> response option \<times> world" where
  "delete_post_handler uid postId destroyed w =
     (case pool_query (select_post_by_id postId) w of
        (Thrown, w1) \<Rightarrow> (Some internal_error, w1)
      | (Done checkResult, w1) \<Rightarrow>
          (case checkResult of
             [] \<Rightarrow> (Some (Reply 404 False ''Post not found'' NoData), w1)
           | p # others \<Rightarrow>
               if p_user_id p \<noteq> uid then
                 (Some (Reply 403 False ''Not authorized to delete this post'' NoData), w1)
               else
                 (case pool_query (delete_post postId) w1 of
                    (Thrown, w2) \<Rightarrow> (Some internal_error, w2)
                  | (Done u2, w2) \<Rightarrow>
                      (Some (Reply 200 True ''Post deleted successfully'' NoData),
                       cleanup_image (image_url p) destroyed w2))))"

subsection \<open>Read paths\<close>

text \<open>\<^verbatim>\<open>SELECT id FROM users WHERE username = $1 AND is_active = true\<close>\<close>

definition select_active_user ::
  "string \<Rightarrow> database \<Rightarrow> (user list \<times> database) option" where
  "select_active_user name d =
     (if \<not> pg_text name then None
      else Some (filter (\<lambda>u. username u = name \<and> is_active u) (users d), d))"

text \<open>
  \<^verbatim>\<open>LIMIT $2 OFFSET $3\<close>: both operands are \<^verbatim>\<open>BIGINT\<close>; PostgreSQL rejects a
  value out of that range and a negative limit or offset.
\<close>

definition limit_offset :: "int \<Rightarrow> int \<Rightarrow> 'a list \<Rightarrow> 'a list option" where
  "limit_offset lim off rows =
     (if \<not> int8 lim \<or> \<not> int8 off \<or> lim < 0 \<or> off < 0 then None
      else Some (take (nat lim) (drop (nat off) rows)))"

text \<open>
  The handlers compute \<^verbatim>\<open>offset = (page - 1) * limit\<close> on JavaScript numbers, which
  are IEEE 754 doubles. \<open>bit_length n\<close> is the number of binary digits of \<open>n\<close>.
\<close>

fun bit_length :: "nat \<Rightarrow> nat" where
  "bit_length n = (if n = 0 then 0 else Suc (bit_length (n div 2)))"

text \<open>
  The double nearest to an integer: the significand keeps 53 bits, a tie goes to the even
  significand, and a magnitude that rounds to \<open>2 ^ 1024\<close> is \<^verbatim>\<open>Infinity\<close>, here
  \<open>None\<close>.
\<close>

definition to_double :: "int \<Rightarrow> int option" where
  "to_double i =
     (let n = nat \<bar>i\<bar>;
          u = 2 ^ (bit_length n - 53);
          q = n div u;
          r = n mod u;
          m = (if u < 2 * r \<or> (2 * r = u \<and> odd q) then q + 1 else q)
      in if 2 ^ 1024 \<le> m * u then None
         else Some (if i < 0 then - int (m * u) else int (m * u)))"

text \<open>
  \<^verbatim>\<open>(page - 1) * limit\<close>: the strings of the query are converted to numbers and every
  operation rounds. A result that is not finite stays so through the expression.
\<close>

definition js_offset :: "int \<Rightarrow> int \<Rightarrow> int option" where
  "js_offset page limit =
     (case to_double page of
        None \<Rightarrow> None
      | Some p \<Rightarrow>
          (case to_double limit of
             None \<Rightarrow> None
           | Some l \<Rightarrow>
               (case to_double (p - 1) of
                  None \<Rightarrow> None
                | Some p1 \<Rightarrow> to_double (p1 * l))))"

text \<open>
  The offset reaches PostgreSQL as the string of the number.
  \<^verbatim>\<open>Number.prototype.toString\<close> prints the decimal with the fewest significant
  digits that reads back as the same double, of several the closest to it, of two equally
  close the even one. With \<open>j\<close> trailing zeros the candidates are the two multiples of
  \<open>10 ^ j\<close> around the value.
\<close>

definition reads_back :: "int \<Rightarrow> nat \<Rightarrow> int list" where
  "reads_back v j =
     filter (\<lambda>c. to_double c = Some v) [(v div 10 ^ j) * 10 ^ j, (v div 10 ^ j + 1) * 10 ^ j]"

fun shortest :: "nat \<Rightarrow> int \<Rightarrow> int" where
  "shortest 0 v = v"
| "shortest (Suc j) v =
     (case reads_back v (Suc j) of
        [] \<Rightarrow> shortest j v
      | [c] \<Rightarrow> c
      | c1 # c2 # cs \<Rightarrow>
          if v - c1 < c2 - v then c1
          else if c2 - v < v - c1 then c2
          else if even (c1 div 10 ^ Suc j) then c1 else c2)"

text \<open>
  From \<open>10 ^ 21\<close> on, and for \<^verbatim>\<open>Infinity\<close> and \<^verbatim>\<open>NaN\<close>, the string is no
  integer literal (\<^verbatim>\<open>1e+21\<close>) and PostgreSQL rejects the parameter: \<open>None\<close>.
\<close>

definition number_param :: "int option \<Rightarrow> int option" where
  "number_param x =
     (case x of
        None \<Rightarrow> None
      | Some v \<Rightarrow> if 10 ^ 21 \<le> \<bar>v\<bar> then None else Some (shortest 21 v))"

text \<open>
  \<^verbatim>\<open>FROM posts p JOIN users u ON p.user_id = u.id WHERE p.user_id = $1
  ORDER BY p.created_at DESC\<close>: the rows of one author before pagination.
\<close>

definition user_posts_rows :: "int \<Rightarrow> database \<Rightarrow> post list" where
  "user_posts_rows uid d =
     sort_key (\<lambda>p. - p_created_at p)
       [p. p \<leftarrow> posts d, u \<leftarrow> users d, p_user_id p = u_id u, p_user_id p = uid]"

definition select_user_posts ::
  "int \<Rightarrow> int \<Rightarrow> int option \<Rightarrow> database \<Rightarrow> (post list \<times> database) option" where
  "select_user_posts uid lim offset d =
     (case offset of
        None \<Rightarrow> None
      | Some off \<Rightarrow>
          (case limit_offset lim off (user_posts_rows uid d) of
             None \<Rightarrow> None
           | Some rows \<Rightarrow> Some (rows, d)))"

text \<open>\<^verbatim>\<open>SELECT COUNT(*) as count FROM posts WHERE user_id = $1\<close>\<close>

definition count_user_posts :: "int \<Rightarrow> database \<Rightarrow> (int \<times> database) option" where
  "count_user_posts uid d = Some (int (length (filter (\<lambda>p. p_user_id p = uid) (posts d))), d)"

text \<open>
  \<^verbatim>\<open>GET /user/:username\<close>; \<open>page\<close> and \<open>limit\<close> are the integers that the query
  strings (or their defaults 1 and 20) denote. The limit is passed on as the client wrote
  it, the offset as the number the handler computed. The response carries the page of
  posts and \<^verbatim>\<open>totalPosts\<close>.
\<close>

definition get_user_posts ::
  "string \<Rightarrow> int \<Rightarrow> int \<Rightarrow> world \<Rightarrow> response option \<times> world" where
  "get_user_posts name page limit w =
     (case pool_query (select_active_user name) w of
        (Thrown, w1) \<Rightarrow> (Some internal_error, w1)
      | (Done userResult, w1) \<Rightarrow>
          (case userResult of
             [] \<Rightarrow> (Some (Reply 404 False ''User not found'' NoData), w1)
           | u # others \<Rightarrow>
               (case pool_query (select_user_posts (u_id u) limit
                                   (number_param (js_offset page limit))) w1 of
                  (Thrown, w2) \<Rightarrow> (Some internal_error, w2)
                | (Done postsResult, w2) \<Rightarrow>
                    (case pool_query (count_user_posts (u_id u)) w2 of
                       (Thrown, w3) \<Rightarrow> (Some internal_error, w3)
                     | (Done countResult, w3) \<Rightarrow>
                         (Some (Reply 200 True [] (PostPage postsResult countResult)), w3)))))"

text \<open>
  The feed query: \<^verbatim>\<open>FROM posts p JOIN users u ON p.user_id = u.id WHERE p.user_id IN
  (SELECT following_id FROM followers WHERE follower_id = $1 UNION SELECT $1)
  ORDER BY p.created_at DESC\<close>, each row with \<^verbatim>\<open>EXISTS(SELECT 1 FROM likes WHERE
  post_id = p.id AND user_id = $1) as is_liked\<close>.
\<close>

definition feed_rows :: "int \<Rightarrow> database \<Rightarrow> (post \<times> bool) list" where
  "feed_rows uid d =
     sort_key (\<lambda>r. - p_created_at (fst r))
       [(p, filter (\<lambda>l. l_post_id l = p_id p \<and> l_user_id l = uid) (likes d) \<noteq> []).
          p \<leftarrow> posts d, u \<leftarrow> users d, p_user_id p = u_id u,
          p_user_id p \<in> set (map following_id (filter (\<lambda>f. follower_id f = uid) (followers d)))
            \<or> p_user_id p = uid]"

definition select_feed ::
  "int \<Rightarrow> int \<Rightarrow> int option \<Rightarrow> database \<Rightarrow> ((post \<times> bool) list \<times> database) option" where
  "select_feed uid lim offset d =
     (case offset of
        None \<Rightarrow> None
      | Some off \<Rightarrow>
          (case limit_offset lim off (feed_rows uid d) of
             None \<Rightarrow> None
           | Some rows \<Rightarrow> Some (rows, d)))"

text \<open>\<^verbatim>\<open>GET /feed/timeline\<close> after \<^verbatim>\<open>authenticateToken\<close>.\<close>

definition get_feed :: "int \<Rightarrow> int \<Rightarrow> int \<Rightarrow> world \<Rightarrow> response option \<times> world" where
  "get_feed uid page limit w =
     (case pool_query (select_feed uid limit (number_param (js_offset page limit))) w of
        (Thrown, w1) \<Rightarrow> (Some internal_error, w1)
      | (Done postsResult, w1) \<Rightarrow> (Some (Reply 200 True [] (Feed postsResult)), w1))"

section \<open>Group manager (\<^verbatim>\<open>routes/groups.js\<close>)\<close>

subsection \<open>Statements\<close>

text \<open>
  The \<^verbatim>\<open>CREATE TABLE\<close> of \<^verbatim>\<open>groups\<close> and \<^verbatim>\<open>group_members\<close> and the column
  \<^verbatim>\<open>posts.group_id\<close> are not among the sources: the types of their columns are not
  known, and a group id is compared as the integer it is.
\<close>

text \<open>The rows of \<^verbatim>\<open>group_members\<close> with \<^verbatim>\<open>group_id = $1 AND user_id = $2\<close>.\<close>

definition member_rows :: "int \<Rightarrow> int \<Rightarrow> database \<Rightarrow> group_member list" where
  "member_rows gid uid d =
     filter (\<lambda>m. m_group_id m = gid \<and> m_user_id m = uid) (group_members d)"

text \<open>
  Modelled from the spec: the \<^verbatim>\<open>CREATE TABLE\<close> of \<^verbatim>\<open>groups\<close> is not among the
  sources, so the default of \<^verbatim>\<open>members_count\<close> is not either. The specification
  has group creation insert the row, insert the owner and increment the counter, and has
  the counter equal the membership count: a new row starts at 0, as the counters of
  \<^verbatim>\<open>posts\<close> do. The statement is
  \<^verbatim>\<open>INSERT INTO groups (name, description, is_private, owner_id) VALUES (...)
  RETURNING ...\<close>, the id drawn from the table's sequence, the name a text value.
\<close>

definition insert_group ::
  "string \<Rightarrow> bool \<Rightarrow> int \<Rightarrow> database \<Rightarrow> (grp \<times> database) option" where
  "insert_group name private owner d =
     (if \<not> pg_text name then None
      else
        (let g = \<lparr>g_id = groups_seq d + 1, g_name = name, is_private = private,
                  owner_id = owner, members_count = 0\<rparr>
         in Some (g, d\<lparr>groups := groups d @ [g], groups_seq := groups_seq d + 1\<rparr>)))"

text \<open>
  Modelled from the spec: the \<^verbatim>\<open>CREATE TABLE\<close> of \<^verbatim>\<open>group_members\<close> is not
  among the sources. The specification gives a membership as unique per (group, user):
  \<^verbatim>\<open>INSERT INTO group_members (group_id, user_id, role) VALUES ($1, $2, $3)\<close> is
  rejected for a pair that is already a row.
\<close>

definition insert_member ::
  "int \<Rightarrow> int \<Rightarrow> role \<Rightarrow> database \<Rightarrow> (unit \<times> database) option" where
  "insert_member gid uid r d =
     (if member_rows gid uid d \<noteq> [] then None
      else Some ((), d\<lparr>group_members := group_members d
                          @ [\<lparr>m_group_id = gid, m_user_id = uid, m_role = r\<rparr>]\<rparr>))"

text \<open>
  Modelled from the spec: the same insert with \<^verbatim>\<open>ON CONFLICT DO NOTHING\<close>, whose
  conflict is the key (group, user) of the specification; it returns \<^verbatim>\<open>rowCount\<close>.
\<close>

definition insert_member_on_conflict ::
  "int \<Rightarrow> int \<Rightarrow> role \<Rightarrow> database \<Rightarrow> (nat \<times> database) option" where
  "insert_member_on_conflict gid uid r d =
     (if member_rows gid uid d \<noteq> [] then Some (0, d)
      else Some (1, d\<lparr>group_members := group_members d
                         @ [\<lparr>m_group_id = gid, m_user_id = uid, m_role = r\<rparr>]\<rparr>))"

text \<open>\<^verbatim>\<open>UPDATE groups SET members_count = members_count + 1 WHERE id = $1\<close>\<close>

definition increment_members :: "int \<Rightarrow> database \<Rightarrow> (unit \<times> database) option" where
  "increment_members gid d =
     Some ((), d\<lparr>groups := map (\<lambda>g. if g_id g = gid
                                     then g\<lparr>members_count := members_count g + 1\<rparr>
                                     else g) (groups d)\<rparr>)"

text \<open>\<^verbatim>\<open>UPDATE groups SET members_count = GREATEST(members_count - 1, 0) WHERE id = $1\<close>\<close>

definition decrement_members :: "int \<Rightarrow> database \<Rightarrow> (unit \<times> database) option" where
  "decrement_members gid d =
     Some ((), d\<lparr>groups := map (\<lambda>g. if g_id g = gid
                                     then g\<lparr>members_count := max (members_count g - 1) 0\<rparr>
                                     else g) (groups d)\<rparr>)"

text \<open>\<^verbatim>\<open>SELECT is_private FROM groups WHERE id = $1\<close>\<close>

definition select_group :: "int \<Rightarrow> database \<Rightarrow> (grp list \<times> database) option" where
  "select_group gid d = Some (filter (\<lambda>g. g_id g = gid) (groups d), d)"

text \<open>\<^verbatim>\<open>SELECT role FROM group_members WHERE group_id = $1 AND user_id = $2\<close>\<close>

definition select_member ::
  "int \<Rightarrow> int \<Rightarrow> database \<Rightarrow> (group_member list \<times> database) option" where
  "select_member gid uid d = Some (member_rows gid uid d, d)"

text \<open>
  \<^verbatim>\<open>DELETE FROM group_members WHERE group_id = $1 AND user_id = $2\<close>, returning
  \<^verbatim>\<open>rowCount\<close>
\<close>

definition delete_member :: "int \<Rightarrow> int \<Rightarrow> database \<Rightarrow> (nat \<times> database) option" where
  "delete_member gid uid d =
     Some (length (member_rows gid uid d),
           d\<lparr>group_members :=
                filter (\<lambda>m. \<not> (m_group_id m = gid \<and> m_user_id m = uid)) (group_members d)\<rparr>)"

text \<open>\<^verbatim>\<open>SELECT * FROM posts WHERE id = $1 AND group_id = $2\<close>\<close>

definition select_group_post ::
  "int \<Rightarrow> int \<Rightarrow> database \<Rightarrow> (post list \<times> database) option" where
  "select_group_post postId gid d =
     (if \<not> int4 postId then None
      else Some (filter (\<lambda>p. p_id p = postId \<and> group_id p = Some gid) (posts d), d))"

text \<open>\<^verbatim>\<open>rows.length > 0 && rows[0].role === 'admin'\<close>\<close>

definition is_admin :: "group_member list \<Rightarrow> bool" where
  "is_admin rows = (case rows of [] \<Rightarrow> False | m # others \<Rightarrow> m_role m = admin)"

subsection \<open>Membership handlers\<close>

text \<open>
  \<^verbatim>\<open>createGroupValidation\<close>:
  \<^verbatim>\<open>body('name').notEmpty().isLength({ max: 150 })\<close>.
\<close>

definition createGroupValidation :: "string option \<Rightarrow> bool" where
  "createGroupValidation name =
     (case name of None \<Rightarrow> False | Some s \<Rightarrow> s \<noteq> [] \<and> length s \<le> 150)"

text \<open>
  The inner \<^verbatim>\<open>catch\<close> of group creation rolls back and answers 500; when the
  rollback itself rejects, the client is released and the outer \<^verbatim>\<open>catch\<close> sends the
  same answer.
\<close>

definition create_group_catch :: "world \<Rightarrow> response option \<times> world" where
  "create_group_catch w =
     (case tx_rollback w of
        (Thrown, w1) \<Rightarrow> (Some internal_error, client_release w1)
      | (Done u, w1) \<Rightarrow> (Some internal_error, client_release w1))"

text \<open>\<^verbatim>\<open>POST /\<close> (create a group); \<open>private\<close> is \<^verbatim>\<open>!!isPrivate\<close>.\<close>

definition create_group ::
  "int \<Rightarrow> string option \<Rightarrow> bool \<Rightarrow> world \<Rightarrow> response option \<times> world" where
  "create_group ownerId name private w =
     (if \<not> createGroupValidation name then
        (Some (Reply 400 False ''Validation failed'' NoData), w)
      else
     (case pool_connect w of
        (Thrown, w0) \<Rightarrow> (Some internal_error, w0)
      | (Done u0, w0) \<Rightarrow>
     (case tx_begin w0 of
        (Thrown, w1) \<Rightarrow> create_group_catch w1
      | (Done u1, w1) \<Rightarrow>
     (case client_query (insert_group (case name of None \<Rightarrow> [] | Some s \<Rightarrow> s) private ownerId) w1 of
        (Thrown, w2) \<Rightarrow> create_group_catch w2
      | (Done g, w2) \<Rightarrow>
     (case client_query (insert_member (g_id g) ownerId admin) w2 of
        (Thrown, w3) \<Rightarrow> create_group_catch w3
      | (Done u3, w3) \<Rightarrow>
     (case client_query (increment_members (g_id g)) w3 of
        (Thrown, w4) \<Rightarrow> create_group_catch w4
      | (Done u4, w4) \<Rightarrow>
     (case tx_commit w4 of
        (Thrown, w5) \<Rightarrow> create_group_catch w5
      | (Done u5, w5) \<Rightarrow>
          (Some (Reply 201 True ''Group created'' (GroupData g)), client_release w5))))))))"

text \<open>\<^verbatim>\<open>POST /:groupId/join\<close>\<close>

definition join_group :: "int \<Rightarrow> int \<Rightarrow> world \<Rightarrow> response option \<times> world" where
  "join_group uid groupId w =
     (case pool_connect w of
        (Thrown, w0) \<Rightarrow> (None, w0)
      | (Done u0, w0) \<Rightarrow>
     (case client_query (select_group groupId) w0 of
        (Thrown, w1) \<Rightarrow> rollback_500 w1
      | (Done groupRes, w1) \<Rightarrow>
          (case groupRes of
             [] \<Rightarrow> (Some (Reply 404 False ''Group not found'' NoData), client_release w1)
           | g # others \<Rightarrow>
               if is_private g then
                 (Some (Reply 403 False ''Cannot join a private group'' NoData), client_release w1)
               else
     (case tx_begin w1 of
        (Thrown, w2) \<Rightarrow> rollback_500 w2
      | (Done u2, w2) \<Rightarrow>
     (case client_query (insert_member_on_conflict groupId uid member) w2 of
        (Thrown, w3) \<Rightarrow> rollback_500 w3
      | (Done rowCount, w3) \<Rightarrow>
     (case (if rowCount > 0 then client_query (increment_members groupId) w3
            else (Done (), w3)) of
        (Thrown, w4) \<Rightarrow> rollback_500 w4
      | (Done u4, w4) \<Rightarrow>
     (case tx_commit w4 of
        (Thrown, w5) \<Rightarrow> rollback_500 w5
      | (Done u5, w5) \<Rightarrow>
          (Some (Reply 200 True ''Joined group'' NoData), client_release w5))))))))"

text \<open>
  \<^verbatim>\<open>POST /:groupId/members\<close>; \<open>newUserId\<close> is \<^verbatim>\<open>req.body.userId\<close>, falsy when
  missing or 0.
\<close>

definition add_member ::
  "int \<Rightarrow> int \<Rightarrow> int option \<Rightarrow> world \<Rightarrow> response option \<times> world" where
  "add_member uid groupId newUserId w =
     (case pool_connect w of
        (Thrown, w0) \<Rightarrow> (None, w0)
      | (Done u0, w0) \<Rightarrow>
          (case (case newUserId of None \<Rightarrow> None | Some n \<Rightarrow> if n = 0 then None else Some n) of
             None \<Rightarrow> (Some (Reply 400 False ''userId is required'' NoData), client_release w0)
           | Some new \<Rightarrow>
     (case client_query (select_member groupId uid) w0 of
        (Thrown, w1) \<Rightarrow> rollback_500 w1
      | (Done memberRes, w1) \<Rightarrow>
          if \<not> is_admin memberRes then
            (Some (Reply 403 False ''Not authorized to add members'' NoData), client_release w1)
          else
     (case tx_begin w1 of
        (Thrown, w2) \<Rightarrow> rollback_500 w2
      | (Done u2, w2) \<Rightarrow>
     (case client_query (insert_member_on_conflict groupId new member) w2 of
        (Thrown, w3) \<Rightarrow> rollback_500 w3
      | (Done rowCount, w3) \<Rightarrow>
     (case (if rowCount > 0 then client_query (increment_members groupId) w3
            else (Done (), w3)) of
        (Thrown, w4) \<Rightarrow> rollback_500 w4
      | (Done u4, w4) \<Rightarrow>
     (case tx_commit w4 of
        (Thrown, w5) \<Rightarrow> rollback_500 w5
      | (Done u5, w5) \<Rightarrow>
          (Some (Reply 201 True ''Member added'' NoData), client_release w5))))))))"

text \<open>\<^verbatim>\<open>DELETE /:groupId/members/:memberId\<close>\<close>

definition remove_member ::
  "int \<Rightarrow> int \<Rightarrow> int \<Rightarrow> world \<Rightarrow> response option \<times> world" where
  "remove_member uid groupId memberId w =
     (case pool_connect w of
        (Thrown, w0) \<Rightarrow> (None, w0)
      | (Done u0, w0) \<Rightarrow>
     (case client_query (select_member groupId uid) w0 of
        (Thrown, w1) \<Rightarrow> rollback_500 w1
      | (Done isAdminRes, w1) \<Rightarrow>
          if \<not> is_admin isAdminRes \<and> memberId \<noteq> uid then
            (Some (Reply 403 False ''Not authorized to remove this member'' NoData),
             client_release w1)
          else
     (case tx_begin w1 of
        (Thrown, w2) \<Rightarrow> rollback_500 w2
      | (Done u2, w2) \<Rightarrow>
     (case client_query (delete_member groupId memberId) w2 of
        (Thrown, w3) \<Rightarrow> rollback_500 w3
      | (Done rowCount, w3) \<Rightarrow>
          if rowCount = 0 then rollback_reply (Reply 404 False ''Member not found'' NoData) w3
          else
     (case client_query (decrement_members groupId) w3 of
        (Thrown, w4) \<Rightarrow> rollback_500 w4
      | (Done u4, w4) \<Rightarrow>
     (case tx_commit w4 of
        (Thrown, w5) \<Rightarrow> rollback_500 w5
      | (Done u5, w5) \<Rightarrow>
          (Some (Reply 200 True ''Member removed'' NoData), client_release w5)))))))"

subsection \<open>Group posts\<close>

text \<open>
  \<^verbatim>\<open>POST /:groupId/posts\<close>: the client is checked out first and released in
  \<^verbatim>\<open>finally\<close>; the \<^verbatim>\<open>catch\<close> answers 500 without a rollback. No validation chain
  is mounted on this route.
\<close>

definition create_group_post ::
  "int \<Rightarrow> int \<Rightarrow> string option \<Rightarrow> string option \<Rightarrow> media_error + string \<Rightarrow> world
     \<Rightarrow> response option \<times> world" where
  "create_group_post uid groupId cap file cloud w =
     (case pool_connect w of
        (Thrown, w0) \<Rightarrow> (None, w0)
      | (Done u0, w0) \<Rightarrow>
     (case client_query (select_member groupId uid) w0 of
        (Thrown, w1) \<Rightarrow> (Some internal_error, client_release w1)
      | (Done memberRes, w1) \<Rightarrow>
          if memberRes = [] then
            (Some (Reply 403 False ''Must be a member to post'' NoData), client_release w1)
          else
     (case (if file \<noteq> None then
              (case uploadToCloudinary cloud w1 of
                 (Inl err, w2) \<Rightarrow> (Inl err, w2)
               | (Inr secure_url, w2) \<Rightarrow> (Inr (Some secure_url), w2))
            else (Inr None, w1)) of
        (Inl err, w2) \<Rightarrow>
          (Some (Reply 500 False ''Image upload failed'' NoData), client_release w2)
      | (Inr imageUrl, w2) \<Rightarrow>
     (case client_query (insert_post uid (caption_or_empty cap) imageUrl (Some groupId)
                           (clock w2)) w2 of
        (Thrown, w3) \<Rightarrow> (Some internal_error, client_release w3)
      | (Done p, w3) \<Rightarrow>
          (Some (Reply 201 True ''Post created'' (PostData p)), client_release w3)))))"

text \<open>\<^verbatim>\<open>DELETE /:groupId/posts/:postId\<close>\<close>

definition delete_group_post ::
  "int \<Rightarrow> int \<Rightarrow> int \<Rightarrow> bool \<Rightarrow> world \<Rightarrow> response option \<times> world" where
  "delete_group_post uid groupId postId destroyed w =
     (case pool_connect w of
        (Thrown, w0) \<Rightarrow> (None, w0)
      | (Done u0, w0) \<Rightarrow>
     (case client_query (select_group_post postId groupId) w0 of
        (Thrown, w1) \<Rightarrow> (Some internal_error, client_release w1)
      | (Done postRes, w1) \<Rightarrow>
          (case postRes of
             [] \<Rightarrow> (Some (Reply 404 False ''Post not found'' NoData), client_release w1)
           | p # others \<Rightarrow>
     (case (if p_user_id p \<noteq> uid then
              (case client_query (select_member groupId uid) w1 of
                 (Thrown, w2) \<Rightarrow> (Thrown, w2)
               | (Done adminRes, w2) \<Rightarrow> (Done (is_admin adminRes), w2))
            else (Done True, w1)) of
        (Thrown, w2) \<Rightarrow> (Some internal_error, client_release w2)
      | (Done allowed, w2) \<Rightarrow>
          if \<not> allowed then
            (Some (Reply 403 False ''Not authorized to delete this post'' NoData),
             client_release w2)
          else
     (case client_query (delete_post postId) w2 of
        (Thrown, w3) \<Rightarrow> (Some internal_error, client_release w3)
      | (Done u3, w3) \<Rightarrow>
          (Some (Reply 200 True ''Post deleted'' NoData),
           client_release
             (if image_url p \<noteq> None \<and> image_url p \<noteq> Some []
              then cleanup_image (image_url p) destroyed w3 else w3)))))))"

section \<open>Token service\<close>

text \<open>
  \<^verbatim>\<open>jwt.sign(payload, secret, { expiresIn })\<close> belongs to the library as well: a
  parameter \<open>sign\<close>, which also takes the time of the call.
\<close>

type_synonym signer = "jwt_payload \<Rightarrow> string \<Rightarrow> string \<Rightarrow> int \<Rightarrow> string"

record environment =
  jwt_secret :: "string option"
  jwt_expires_in :: "string option"
  jwt_refresh_secret :: "string option"
  jwt_refresh_expires_in :: "string option"

text \<open>\<^verbatim>\<open>generateTokens\<close> of \<^verbatim>\<open>middleware/auth.js\<close>\<close>

definition generateTokens :: "signer \<Rightarrow> environment \<Rightarrow> int \<Rightarrow> int \<Rightarrow> string \<times> string" where
  "generateTokens sign env uid now =
     (sign \<lparr>userId = uid\<rparr> (env_or (jwt_secret env) ''fallback-secret'')
        (env_or (jwt_expires_in env) ''15m'') now,
      sign \<lparr>userId = uid\<rparr> (env_or (jwt_refresh_secret env) ''fallback-refresh-secret'')
        (env_or (jwt_refresh_expires_in env) ''7d'') now)"

text \<open>
  \<^verbatim>\<open>INSERT INTO refresh_tokens (user_id, token, expires_at) VALUES ($1, $2, $3)\<close> under
  \<^verbatim>\<open>user_id INTEGER REFERENCES users(id)\<close> and
  \<^verbatim>\<open>token VARCHAR(255) UNIQUE NOT NULL\<close>.
\<close>

definition insert_refresh_token ::
  "int \<Rightarrow> string \<Rightarrow> int \<Rightarrow> database \<Rightarrow> (unit \<times> database) option" where
  "insert_refresh_token uid tok expiresAt d =
     (if \<not> int4 uid \<or> \<not> user_exists uid d then None
      else if 255 < length tok \<or> \<not> pg_text tok then None
      else if filter (\<lambda>r. token r = tok) (refresh_tokens d) \<noteq> [] then None
      else Some ((), d\<lparr>refresh_tokens := refresh_tokens d
                          @ [\<lparr>rt_user_id = uid, token = tok, expires_at = expiresAt\<rparr>]\<rparr>))"

text \<open>
  \<^verbatim>\<open>storeRefreshToken\<close> of \<^verbatim>\<open>middleware/auth.js\<close>: the row expires seven days
  (604800 seconds) from now; a database error is rethrown.
\<close>

definition storeRefreshToken :: "int \<Rightarrow> string \<Rightarrow> world \<Rightarrow> unit outcome \<times> world" where
  "storeRefreshToken uid refreshToken w =
     pool_query (insert_refresh_token uid refreshToken (clock w + 604800)) w"

text \<open>The matching rows of \<^verbatim>\<open>refresh_tokens\<close> that have not expired at \<open>now\<close>.\<close>

definition select_refresh_token ::
  "string \<Rightarrow> int \<Rightarrow> database \<Rightarrow> (refresh_token list \<times> database) option" where
  "select_refresh_token tok now d =
     Some (filter (\<lambda>r. token r = tok \<and> now < expires_at r) (refresh_tokens d), d)"

text \<open>Deleting the rows that hold a token string.\<close>

definition delete_refresh_token :: "string \<Rightarrow> database \<Rightarrow> (unit \<times> database) option" where
  "delete_refresh_token tok d =
     Some ((), d\<lparr>refresh_tokens := filter (\<lambda>r. token r \<noteq> tok) (refresh_tokens d)\<rparr>)"

datatype refresh_result = InvalidToken | InternalFailure | Issued string string

text \<open>
  Modelled from the spec: the handler of \<^verbatim>\<open>POST /auth/refresh\<close>
  (\<^verbatim>\<open>routes/auth.js\<close>) is not among the sources. The specification's
  \<open>refresh(refreshTokenString)\<close> verifies the token's signature and expiry, fails with
  \<open>InvalidToken\<close> if either check fails or if no matching non-expired row exists in
  storage, and on success issues a new token pair and invalidates the presented refresh
  token, replacing its stored row; storage unavailability is \<open>InternalFailure\<close>. The
  pair is minted and stored by \<^verbatim>\<open>generateTokens\<close> and \<^verbatim>\<open>storeRefreshToken\<close>, which
  are among the sources.
\<close>

definition refresh ::
  "verifier \<Rightarrow> signer \<Rightarrow> environment \<Rightarrow> string \<Rightarrow> world \<Rightarrow> refresh_result \<times> world" where
  "refresh jwt sign env presented w =
     (case verifyToken jwt presented
             (env_or (jwt_refresh_secret env) ''fallback-refresh-secret'') of
        None \<Rightarrow> (InvalidToken, w)
      | Some decoded \<Rightarrow>
     (case pool_query (select_refresh_token presented (clock w)) w of
        (Thrown, w1) \<Rightarrow> (InternalFailure, w1)
      | (Done rows, w1) \<Rightarrow>
          if rows = [] then (InvalidToken, w1)
          else
     (case pool_query (delete_refresh_token presented) w1 of
        (Thrown, w2) \<Rightarrow> (InternalFailure, w2)
      | (Done u2, w2) \<Rightarrow>
          (case generateTokens sign env (userId decoded) (clock w2) of
             (accessToken, refreshToken) \<Rightarrow>
     (case storeRefreshToken (userId decoded) refreshToken w2 of
        (Thrown, w3) \<Rightarrow> (InternalFailure, w3)
      | (Done u3, w3) \<Rightarrow> (Issued accessToken refreshToken, w3))))))"

section \<open>Consistency of the denormalised counters\<close>

text \<open>
  Every post's \<^verbatim>\<open>likes_count\<close> and \<^verbatim>\<open>comments_count\<close> and every group's
  \<^verbatim>\<open>members_count\<close> equal the number of rows of the relation behind them.
\<close>

definition post_counters_ok :: "database \<Rightarrow> post \<Rightarrow> bool" where
  "post_counters_ok d p =
     (likes_count p = int (length (filter (\<lambda>l. l_post_id l = p_id p) (likes d)))
      \<and> comments_count p = int (length (filter (\<lambda>c. c_post_id c = p_id p) (comments d))))"

definition group_counter_ok :: "database \<Rightarrow> grp \<Rightarrow> bool" where
  "group_counter_ok d g =
     (members_count g = int (length (filter (\<lambda>m. m_group_id m = g_id g) (group_members d))))"

definition counters_consistent :: "database \<Rightarrow> bool" where
  "counters_consistent d =
     (list_all (post_counters_ok d) (posts d) \<and> list_all (group_counter_ok d) (groups d))"

section \<open>A small instance\<close>

text \<open>
  Three users (the third deactivated), two posts and a post inside the private group, one
  like and one comment on the first post, a public and a private group with their owners
  as admins; alice and bob follow each other.
\<close>

definition alice :: user where
  "alice = \<lparr>u_id = 1, username = ''alice'', is_active = True\<rparr>"

definition bob :: user where
  "bob = \<lparr>u_id = 2, username = ''bob'', is_active = True\<rparr>"

definition carol :: user where
  "carol = \<lparr>u_id = 3, username = ''carol'', is_active = False\<rparr>"

definition demo_db :: database where
  "demo_db =
     \<lparr>users = [alice, bob, carol],
      posts =
        [\<lparr>p_id = 1, p_user_id = 1, caption = ''hello'',
          image_url = Some ''https://res.cloudinary.com/demo/image/upload/v1/p1.jpg'',
          likes_count = 1, comments_count = 1, group_id = None, p_created_at = 10\<rparr>,
         \<lparr>p_id = 2, p_user_id = 2, caption = ''world'', image_url = Some ''u2'',
          likes_count = 0, comments_count = 0, group_id = None, p_created_at = 20\<rparr>,
         \<lparr>p_id = 3, p_user_id = 2, caption = ''inside'', image_url = Some ''/v3/g3.png'',
          likes_count = 0, comments_count = 0, group_id = Some 2, p_created_at = 30\<rparr>],
      likes = [\<lparr>l_user_id = 2, l_post_id = 1\<rparr>],
      comments = [\<lparr>c_id = 1, c_user_id = 2, c_post_id = 1, comment_text = ''nice''\<rparr>],
      groups =
        [\<lparr>g_id = 1, g_name = ''open'', is_private = False, owner_id = 1, members_count = 1\<rparr>,
         \<lparr>g_id = 2, g_name = ''closed'', is_private = True, owner_id = 2, members_count = 1\<rparr>],
      group_members =
        [\<lparr>m_group_id = 1, m_user_id = 1, m_role = admin\<rparr>,
         \<lparr>m_group_id = 2, m_user_id = 2, m_role = admin\<rparr>],
      followers = [\<lparr>follower_id = 2, following_id = 1\<rparr>,
                   \<lparr>follower_id = 1, following_id = 2\<rparr>],
      refresh_tokens = [\<lparr>rt_user_id = 1, token = ''r1'', expires_at = 1000\<rparr>],
      posts_seq = 3, comments_seq = 1, groups_seq = 2\<rparr>"

text \<open>A request arriving at a store, with a script of database faults.\<close>

definition request :: "database \<Rightarrow> bool list \<Rightarrow> world" where
  "request d fs = \<lparr>store = d, txn = None, faults = fs, clock = 100, trace = []\<rparr>"




section \<open>Atomic units\<close>

text \<open>
  A handler run from store \<open>d0\<close> is all-or-nothing towards \<open>d1\<close> when it leaves no
  transaction open and the committed store is \<open>d1\<close> if it answered with success and
  \<open>d0\<close> otherwise (an error answer, or no answer at all).
\<close>

definition all_or_nothing ::
  "database \<Rightarrow> database \<Rightarrow> response option \<times> world \<Rightarrow> bool" where
  "all_or_nothing d0 d1 res =
     (txn (snd res) = None \<and>
      (case fst res of
         None \<Rightarrow> store (snd res) = d0
       | Some r \<Rightarrow> if success r then store (snd res) = d1 else store (snd res) = d0))"

text \<open>The committed store and the open transaction of a world.\<close>

definition at :: "database \<Rightarrow> database option \<Rightarrow> world \<Rightarrow> bool" where
  "at d t w = (store w = d \<and> txn w = t)"

text \<open>The store after one more like: one row appended, the post's counter one higher.\<close>

definition liked :: "int \<Rightarrow> int \<Rightarrow> database \<Rightarrow> database" where
  "liked uid postId d =
     d\<lparr>likes := likes d @ [\<lparr>l_user_id = uid, l_post_id = postId\<rparr>],
       posts := map (\<lambda>p. if p_id p = postId then p\<lparr>likes_count := likes_count p + 1\<rparr>
                          else p) (posts d)\<rparr>"

text \<open>One more like fits the counter of the post, an \<^verbatim>\<open>INTEGER\<close> column.\<close>

definition likes_fit :: "int \<Rightarrow> database \<Rightarrow> bool" where
  "likes_fit postId d =
     (\<not> list_ex (\<lambda>p. p_id p = postId \<and> \<not> int4 (likes_count p + 1)) (posts d))"

text \<open>
  The store after a join: unchanged for a member, otherwise one membership row appended
  and the group's counter one higher.
\<close>

definition joined :: "int \<Rightarrow> int \<Rightarrow> database \<Rightarrow> database" where
  "joined uid gid d =
     (if member_rows gid uid d \<noteq> [] then d
      else d\<lparr>group_members := group_members d
                 @ [\<lparr>m_group_id = gid, m_user_id = uid, m_role = member\<rparr>],
             groups := map (\<lambda>g. if g_id g = gid then g\<lparr>members_count := members_count g + 1\<rparr>
                                else g) (groups d)\<rparr>)"

text \<open>The row the join handler reads exists and is not private.\<close>

definition public_group :: "int \<Rightarrow> database \<Rightarrow> bool" where
  "public_group gid d =
     (case filter (\<lambda>g. g_id g = gid) (groups d) of
        [] \<Rightarrow> False
      | g # others \<Rightarrow> \<not> is_private g)"

text \<open>The store without a post: its row, its likes and its comments are gone.\<close>

definition without_post :: "int \<Rightarrow> database \<Rightarrow> database" where
  "without_post postId d =
     d\<lparr>posts := filter (\<lambda>p. p_id p \<noteq> postId) (posts d),
       likes := filter (\<lambda>l. l_post_id l \<noteq> postId) (likes d),
       comments := filter (\<lambda>c. c_post_id c \<noteq> postId) (comments d)\<rparr>"

text \<open>The row a delete handler reads exists and belongs to the requester.\<close>

definition owns_post :: "int \<Rightarrow> int \<Rightarrow> database \<Rightarrow> bool" where
  "owns_post uid postId d =
     (case select_post_by_id postId d of
        None \<Rightarrow> False
      | Some (rows, d') \<Rightarrow>
          (case rows of
             [] \<Rightarrow> False
           | p # others \<Rightarrow> p_user_id p = uid))"

definition owns_group_post :: "int \<Rightarrow> int \<Rightarrow> int \<Rightarrow> database \<Rightarrow> bool" where
  "owns_group_post uid gid postId d =
     (case select_group_post postId gid d of
        None \<Rightarrow> False
      | Some (rows, d') \<Rightarrow>
          (case rows of
             [] \<Rightarrow> False
           | p # others \<Rightarrow> p_user_id p = uid))"

section \<open>Connections held across media calls\<close>

text \<open>
  Reading a trace with \<open>n\<close> clients checked out: some upload happens while the
  request holds a pooled client.
\<close>

fun upload_while_held :: "nat \<Rightarrow> event list \<Rightarrow> bool" where
  "upload_while_held n [] = False"
| "upload_while_held n (Checkout # es) = upload_while_held (Suc n) es"
| "upload_while_held n (Checkin # es) = upload_while_held (n - 1) es"
| "upload_while_held n (Upload # es) = (0 < n \<or> upload_while_held n es)"
| "upload_while_held n (Statement # es) = upload_while_held n es"
| "upload_while_held n (Destroy # es) = upload_while_held n es"

section \<open>Where a group post shows up\<close>

text \<open>The active user row that \<^verbatim>\<open>GET /user/:username\<close> resolves a name to.\<close>

definition resolves_to :: "string \<Rightarrow> int \<Rightarrow> database \<Rightarrow> bool" where
  "resolves_to name uid d =
     (case select_active_user name d of
        None \<Rightarrow> False
      | Some (rows, d') \<Rightarrow>
          (case rows of
             [] \<Rightarrow> False
           | u # others \<Rightarrow> u_id u = uid))"

text \<open>
  What the primary keys of the schema give: no two users share an id, and the posts, whose
  ids are values of an \<^verbatim>\<open>INTEGER\<close> column, are at most \<open>2 ^ 32\<close>.
\<close>

definition within_keys :: "database \<Rightarrow> bool" where
  "within_keys d = (distinct (map u_id (users d)) \<and> length (posts d) \<le> 4294967296)"

text \<open>The store with one more post: the row appended, the sequence advanced.\<close>

definition with_post :: "post \<Rightarrow> database \<Rightarrow> database" where
  "with_post p d = d\<lparr>posts := posts d @ [p], posts_seq := posts_seq d + 1\<rparr>"

text \<open>The post that bob creates inside the private group of the small instance.\<close>

definition secret_post :: post where
  "secret_post =
     \<lparr>p_id = 4, p_user_id = 2, caption = ''secret'', image_url = None, likes_count = 0,
      comments_count = 0, group_id = Some 2, p_created_at = 100\<rparr>"

section \<open>Well-formed stores and the effects of the writing operations\<close>

text \<open>
  What the constraints of the schema keep true of a store: one like per (user, post)
  (\<^verbatim>\<open>UNIQUE(user_id, post_id)\<close>), one membership per (group, user), comment ids that are
  unique and were drawn from the sequence, and groups and memberships whose group ids
  were drawn from the sequence.
\<close>

definition well_formed :: "database \<Rightarrow> bool" where
  "well_formed d =
     (distinct (map (\<lambda>l. (l_user_id l, l_post_id l)) (likes d))
      \<and> distinct (map (\<lambda>m. (m_group_id m, m_user_id m)) (group_members d))
      \<and> distinct (map c_id (comments d))
      \<and> list_all (\<lambda>c. c_id c \<le> comments_seq d) (comments d)
      \<and> list_all (\<lambda>g. g_id g \<le> groups_seq d) (groups d)
      \<and> list_all (\<lambda>m. m_group_id m \<le> groups_seq d) (group_members d))"

definition sound :: "database \<Rightarrow> bool" where
  "sound d = (well_formed d \<and> counters_consistent d)"

text \<open>
  The committed effect of each writing handler when it answers with success, as a
  function of the store it started from; where the handler cannot succeed the store is
  left as it is.
\<close>

definition like_effect :: "int \<Rightarrow> int \<Rightarrow> database \<Rightarrow> database" where
  "like_effect uid postId d =
     (if filter (\<lambda>l. l_user_id l = uid \<and> l_post_id l = postId) (likes d) \<noteq> [] then d
      else liked uid postId d)"

definition unlike_effect :: "int \<Rightarrow> int \<Rightarrow> database \<Rightarrow> database" where
  "unlike_effect uid postId d =
     (if filter (\<lambda>l. l_user_id l = uid \<and> l_post_id l = postId) (likes d) = [] then d
      else d\<lparr>likes := filter (\<lambda>l. \<not> (l_user_id l = uid \<and> l_post_id l = postId)) (likes d),
             posts := map (\<lambda>p. if p_id p = postId
                                then p\<lparr>likes_count := max (likes_count p - 1) 0\<rparr> else p)
                        (posts d)\<rparr>)"

definition comment_effect :: "int \<Rightarrow> int \<Rightarrow> string \<Rightarrow> database \<Rightarrow> database" where
  "comment_effect uid postId txt d =
     d\<lparr>comments := comments d
          @ [\<lparr>c_id = comments_seq d + 1, c_user_id = uid, c_post_id = postId,
              comment_text = txt\<rparr>],
       comments_seq := comments_seq d + 1,
       posts := map (\<lambda>p. if p_id p = postId
                          then p\<lparr>comments_count := comments_count p + 1\<rparr> else p)
                  (posts d)\<rparr>"

text \<open>Deleting a comment through the route of post \<open>postId\<close>.\<close>

definition uncomment_effect :: "int \<Rightarrow> int \<Rightarrow> database \<Rightarrow> database" where
  "uncomment_effect postId commentId d =
     (if filter (\<lambda>c. c_id c = commentId) (comments d) = [] then d
      else d\<lparr>comments := filter (\<lambda>c. c_id c \<noteq> commentId) (comments d),
             posts := map (\<lambda>p. if p_id p = postId
                                then p\<lparr>comments_count := max (comments_count p - 1) 0\<rparr>
                                else p) (posts d)\<rparr>)"

definition join_effect :: "int \<Rightarrow> int \<Rightarrow> database \<Rightarrow> database" where
  "join_effect uid gid d =
     (if filter (\<lambda>g. g_id g = gid) (groups d) = [] then d else joined uid gid d)"

text \<open>An admin \<open>uid\<close> adds the user \<^verbatim>\<open>req.body.userId\<close>.\<close>

definition add_effect :: "int \<Rightarrow> int \<Rightarrow> int option \<Rightarrow> database \<Rightarrow> database" where
  "add_effect uid gid newUserId d =
     (case newUserId of
        None \<Rightarrow> d
      | Some n \<Rightarrow> if member_rows gid uid d = [] then d else joined n gid d)"

definition leave_effect :: "int \<Rightarrow> int \<Rightarrow> database \<Rightarrow> database" where
  "leave_effect gid uid d =
     (if member_rows gid uid d = [] then d
      else d\<lparr>group_members :=
               filter (\<lambda>m. \<not> (m_group_id m = gid \<and> m_user_id m = uid)) (group_members d),
             groups := map (\<lambda>g. if g_id g = gid
                                 then g\<lparr>members_count := max (members_count g - 1) 0\<rparr>
                                 else g) (groups d)\<rparr>)"

definition create_group_effect :: "int \<Rightarrow> string \<Rightarrow> bool \<Rightarrow> database \<Rightarrow> database" where
  "create_group_effect owner name private d =
     (if member_rows (groups_seq d + 1) owner d \<noteq> [] then d
      else d\<lparr>groups := map (\<lambda>g. if g_id g = groups_seq d + 1
                                 then g\<lparr>members_count := members_count g + 1\<rparr> else g)
                         (groups d
                          @ [\<lparr>g_id = groups_seq d + 1, g_name = name, is_private = private,
                              owner_id = owner, members_count = 0\<rparr>]),
             groups_seq := groups_seq d + 1,
             group_members := group_members d
               @ [\<lparr>m_group_id = groups_seq d + 1, m_user_id = owner, m_role = admin\<rparr>]\<rparr>)"

text \<open>The route's post is the post of the comment that the delete handler reads.\<close>

definition comment_on :: "int \<Rightarrow> int \<Rightarrow> database \<Rightarrow> bool" where
  "comment_on postId commentId d =
     (case filter (\<lambda>c. c_id c = commentId) (comments d) of
        [] \<Rightarrow> True
      | c # others \<Rightarrow> c_post_id c = postId)"


section \<open>Facts about the primitives\<close>

lemma emit_fields [simp]:
  "store (emit e w) = store w" "txn (emit e w) = txn w" "faults (emit e w) = faults w"
  "clock (emit e w) = clock w" "trace (emit e w) = trace w @ [e]"
  by (simp_all add: emit_def)

lemma tick_calm [simp]: "faults w = [] \<Longrightarrow> tick w = (False, w)"
  by (simp add: tick_def)

lemma tick_fields:
  "tick w = (b, w1) \<Longrightarrow>
     store w1 = store w \<and> txn w1 = txn w \<and> clock w1 = clock w \<and> trace w1 = trace w"
  by (auto simp: tick_def split: list.splits)

lemma client_release_fields [simp]:
  "store (client_release w) = store w" "txn (client_release w) = txn w"
  "faults (client_release w) = faults w" "clock (client_release w) = clock w"
  "trace (client_release w) = trace w @ [Checkin]"
  by (simp_all add: client_release_def)

text \<open>With no fault scripted, every call is answered.\<close>

lemma pool_connect_calm:
  "faults w = [] \<Longrightarrow> pool_connect w = (Done (), emit Checkout w)"
  by (simp add: pool_connect_def)

lemma pool_query_calm:
  "faults w = [] \<Longrightarrow>
     pool_query q w =
       (case q (store w) of
          None \<Rightarrow> (Thrown, emit Statement w)
        | Some (r, d) \<Rightarrow> (Done r, (emit Statement w)\<lparr>store := d\<rparr>))"
  by (simp add: pool_query_def)

lemma client_query_calm:
  "faults w = [] \<Longrightarrow> txn w = Some t \<Longrightarrow>
     client_query q w =
       (case q t of
          None \<Rightarrow> (Thrown, emit Statement w)
        | Some (r, d) \<Rightarrow> (Done r, (emit Statement w)\<lparr>txn := Some d\<rparr>))"
  by (simp add: client_query_def)

lemma client_query_auto_calm:
  "faults w = [] \<Longrightarrow> txn w = None \<Longrightarrow>
     client_query q w =
       (case q (store w) of
          None \<Rightarrow> (Thrown, emit Statement w)
        | Some (r, d) \<Rightarrow> (Done r, (emit Statement w)\<lparr>store := d\<rparr>))"
  by (simp add: client_query_def)

lemma tx_begin_calm:
  "faults w = [] \<Longrightarrow> txn w = None \<Longrightarrow>
     tx_begin w = (Done (), (emit Statement w)\<lparr>txn := Some (store w)\<rparr>)"
  by (simp add: tx_begin_def)

lemma tx_commit_calm:
  "faults w = [] \<Longrightarrow> txn w = Some t \<Longrightarrow>
     tx_commit w = (Done (), (emit Statement w)\<lparr>store := t, txn := None\<rparr>)"
  by (simp add: tx_commit_def)

lemma tx_rollback_calm:
  "faults w = [] \<Longrightarrow> tx_rollback w = (Done (), (emit Statement w)\<lparr>txn := None\<rparr>)"
  by (simp add: tx_rollback_def)

lemma rollback_reply_calm:
  "faults w = [] \<Longrightarrow>
     rollback_reply r w = (Some r, client_release ((emit Statement w)\<lparr>txn := None\<rparr>))"
  by (simp add: rollback_reply_def tx_rollback_calm)

lemma rollback_500_calm:
  "faults w = [] \<Longrightarrow>
     rollback_500 w
       = (Some internal_error, client_release ((emit Statement w)\<lparr>txn := None\<rparr>))"
  by (simp add: rollback_500_def tx_rollback_calm)

text \<open>Whatever the faults, only a commit changes the committed store.\<close>

lemma pool_connect_any:
  "pool_connect w = (r, w1) \<Longrightarrow> store w1 = store w \<and> txn w1 = txn w"
  by (auto simp: pool_connect_def split: prod.splits bool.splits dest: tick_fields)

lemma tx_begin_any:
  "tx_begin w = (r, w1) \<Longrightarrow> txn w = None \<Longrightarrow>
     store w1 = store w \<and> (r = Thrown \<and> txn w1 = None \<or> r = Done () \<and> txn w1 = Some (store w))"
  by (auto simp: tx_begin_def split: prod.splits bool.splits dest!: tick_fields)

lemma client_query_any:
  "client_query q w = (r, w1) \<Longrightarrow> txn w = Some t \<Longrightarrow>
     store w1 = store w \<and>
     (r = Thrown \<and> txn w1 = Some t \<or> (\<exists>x d. r = Done x \<and> q t = Some (x, d) \<and> txn w1 = Some d))"
  by (auto simp: client_query_def split: prod.splits bool.splits option.splits
      dest!: tick_fields)

lemma client_query_auto_any:
  "client_query q w = (r, w1) \<Longrightarrow> txn w = None \<Longrightarrow>
     txn w1 = None \<and>
     (r = Thrown \<and> store w1 = store w \<or> (\<exists>x. r = Done x \<and> q (store w) = Some (x, store w1)))"
  by (auto simp: client_query_def split: prod.splits bool.splits option.splits
      dest!: tick_fields)

lemma pool_query_any:
  "pool_query q w = (r, w1) \<Longrightarrow>
     txn w1 = txn w \<and>
     (r = Thrown \<and> store w1 = store w \<or> (\<exists>x. r = Done x \<and> q (store w) = Some (x, store w1)))"
  by (auto simp: pool_query_def split: prod.splits bool.splits option.splits
      dest!: tick_fields)

lemma tx_commit_any:
  "tx_commit w = (r, w1) \<Longrightarrow> txn w = Some t \<Longrightarrow>
     (r = Thrown \<and> store w1 = store w \<and> txn w1 = Some t)
     \<or> (r = Done () \<and> store w1 = t \<and> txn w1 = None)"
  by (auto simp: tx_commit_def split: prod.splits bool.splits dest!: tick_fields)

lemma tx_rollback_any:
  "tx_rollback w = (r, w1) \<Longrightarrow> store w1 = store w \<and> txn w1 = None"
  by (auto simp: tx_rollback_def split: prod.splits bool.splits dest!: tick_fields)

lemma rollback_500_any:
  "rollback_500 w = (r, w1) \<Longrightarrow>
     store w1 = store w \<and> txn w1 = None \<and> (r = None \<or> r = Some internal_error)"
  by (auto simp: rollback_500_def split: prod.splits outcome.splits dest!: tx_rollback_any)

lemma rollback_reply_any:
  "rollback_reply x w = (r, w1) \<Longrightarrow>
     store w1 = store w \<and> txn w1 = None \<and> (r = None \<or> r = Some internal_error \<or> r = Some x)"
  by (auto simp: rollback_reply_def split: prod.splits outcome.splits
      dest!: tx_rollback_any rollback_500_any)

section \<open>Stepping through a handler\<close>

text \<open>
  One rule per awaited call: from what is known of the world before the call, what is
  known in the branch where it rejects and in the branch where it resolves.
\<close>

lemma at_start: "txn w = None \<Longrightarrow> at (store w) None w"
  by (simp add: at_def)

lemma aon_connect:
  assumes "at d t w"
    and "\<And>w'. at d t w' \<Longrightarrow> all_or_nothing d0 d1 (f w')"
    and "\<And>u w'. at d t w' \<Longrightarrow> all_or_nothing d0 d1 (g u w')"
  shows "all_or_nothing d0 d1
           (case pool_connect w of (Thrown, w') \<Rightarrow> f w' | (Done u, w') \<Rightarrow> g u w')"
  using assms
  by (cases "pool_connect w") (auto simp: at_def split: outcome.splits dest!: pool_connect_any)

lemma aon_begin:
  assumes "at d None w"
    and "\<And>w'. at d None w' \<Longrightarrow> all_or_nothing d0 d1 (f w')"
    and "\<And>u w'. at d (Some d) w' \<Longrightarrow> all_or_nothing d0 d1 (g u w')"
  shows "all_or_nothing d0 d1
           (case tx_begin w of (Thrown, w') \<Rightarrow> f w' | (Done u, w') \<Rightarrow> g u w')"
  using assms
  by (cases "tx_begin w") (auto simp: at_def split: outcome.splits dest!: tx_begin_any)

lemma aon_query:
  assumes "at d (Some t) w"
    and "\<And>w'. at d (Some t) w' \<Longrightarrow> all_or_nothing d0 d1 (f w')"
    and "\<And>x t' w'. q t = Some (x, t') \<Longrightarrow> at d (Some t') w' \<Longrightarrow> all_or_nothing d0 d1 (g x w')"
  shows "all_or_nothing d0 d1
           (case client_query q w of (Thrown, w') \<Rightarrow> f w' | (Done x, w') \<Rightarrow> g x w')"
  using assms
  by (cases "client_query q w") (auto simp: at_def split: outcome.splits dest!: client_query_any)

lemma aon_query_auto:
  assumes "at d None w"
    and "\<And>w'. at d None w' \<Longrightarrow> all_or_nothing d0 d1 (f w')"
    and "\<And>x d' w'. q d = Some (x, d') \<Longrightarrow> at d' None w' \<Longrightarrow> all_or_nothing d0 d1 (g x w')"
  shows "all_or_nothing d0 d1
           (case client_query q w of (Thrown, w') \<Rightarrow> f w' | (Done x, w') \<Rightarrow> g x w')"
  using assms
  by (cases "client_query q w")
    (auto simp: at_def split: outcome.splits dest!: client_query_auto_any)

lemma aon_pool_query:
  assumes "at d t w"
    and "\<And>w'. at d t w' \<Longrightarrow> all_or_nothing d0 d1 (f w')"
    and "\<And>x d' w'. q d = Some (x, d') \<Longrightarrow> at d' t w' \<Longrightarrow> all_or_nothing d0 d1 (g x w')"
  shows "all_or_nothing d0 d1
           (case pool_query q w of (Thrown, w') \<Rightarrow> f w' | (Done x, w') \<Rightarrow> g x w')"
  using assms
  by (cases "pool_query q w")
    (auto simp: at_def split: outcome.splits dest!: pool_query_any)

lemma aon_commit:
  assumes "at d (Some t) w"
    and "\<And>w'. at d (Some t) w' \<Longrightarrow> all_or_nothing d0 d1 (f w')"
    and "\<And>u w'. at t None w' \<Longrightarrow> all_or_nothing d0 d1 (g u w')"
  shows "all_or_nothing d0 d1
           (case tx_commit w of (Thrown, w') \<Rightarrow> f w' | (Done u, w') \<Rightarrow> g u w')"
  using assms
  by (cases "tx_commit w") (auto simp: at_def split: outcome.splits dest!: tx_commit_any)

lemma aon_if:
  "(c \<Longrightarrow> all_or_nothing d0 d1 a) \<Longrightarrow> (\<not> c \<Longrightarrow> all_or_nothing d0 d1 b)
     \<Longrightarrow> all_or_nothing d0 d1 (if c then a else b)"
  by simp

lemma aon_list:
  "(xs = [] \<Longrightarrow> all_or_nothing d0 d1 a)
     \<Longrightarrow> (\<And>y ys. xs = y # ys \<Longrightarrow> all_or_nothing d0 d1 (b y ys))
     \<Longrightarrow> all_or_nothing d0 d1 (case xs of [] \<Rightarrow> a | y # ys \<Rightarrow> b y ys)"
  by (cases xs) auto

lemma case_of_if:
  "(case (if c then a else b) of (x, y) \<Rightarrow> f x y)
     = (if c then (case a of (x, y) \<Rightarrow> f x y) else (case b of (x, y) \<Rightarrow> f x y))"
  by simp

text \<open>The leaves: the shared error exits, a reply with release, a reply, no reply.\<close>

lemma aon_rollback_500: "at d t w \<Longrightarrow> d = d0 \<Longrightarrow> all_or_nothing d0 d1 (rollback_500 w)"
  by (cases "rollback_500 w")
    (auto simp: at_def all_or_nothing_def internal_error_def dest!: rollback_500_any)

lemma aon_rollback_reply:
  "at d t w \<Longrightarrow> d = d0 \<and> \<not> success x \<Longrightarrow> all_or_nothing d0 d1 (rollback_reply x w)"
  by (cases "rollback_reply x w")
    (auto simp: at_def all_or_nothing_def internal_error_def dest!: rollback_reply_any)

lemma aon_release:
  "at d None w \<Longrightarrow> (if success x then d = d1 else d = d0)
     \<Longrightarrow> all_or_nothing d0 d1 (Some x, client_release w)"
  by (auto simp: at_def all_or_nothing_def)

lemma aon_reply:
  "at d None w \<Longrightarrow> (if success x then d = d1 else d = d0)
     \<Longrightarrow> all_or_nothing d0 d1 (Some x, w)"
  by (auto simp: at_def all_or_nothing_def)

lemma aon_unanswered: "at d None w \<Longrightarrow> d = d0 \<Longrightarrow> all_or_nothing d0 d1 (None, w)"
  by (auto simp: at_def all_or_nothing_def)

lemmas aon_steps =
  aon_connect aon_begin aon_query aon_query_auto aon_commit aon_pool_query

lemmas aon_leaves = aon_rollback_500 aon_rollback_reply aon_release aon_reply aon_unanswered

section \<open>Likes\<close>

lemma like_post_atomic:
  assumes "txn w = None"
  shows "all_or_nothing (store w) (liked uid postId (store w)) (like_post uid postId w)"
  using at_start [OF assms] unfolding like_post_def
  apply -
  apply (erule aon_steps | rule aon_if
      | (erule aon_leaves,
          fastforce simp: liked_def select_post_by_id_def select_like_def insert_like_def
            increment_likes_def split: if_splits))+
  done

lemma like_post_again:
  assumes "txn w = None"
    and "filter (\<lambda>l. l_user_id l = uid \<and> l_post_id l = postId) (likes (store w)) \<noteq> []"
  shows "all_or_nothing (store w) (store w) (like_post uid postId w)"
  using at_start [OF assms(1)] assms(2) unfolding like_post_def
  apply -
  apply (erule aon_steps | rule aon_if
      | (erule aon_leaves,
          fastforce simp: select_post_by_id_def select_like_def insert_like_def
            increment_likes_def split: if_splits))+
  done

lemma like_post_calm:
  assumes "txn w = None" and "faults w = []" and "int4 postId"
  shows "fst (like_post uid postId w) =
     (if filter (\<lambda>p. p_id p = postId) (posts (store w)) = []
      then Some (Reply 404 False ''Post not found'' NoData)
      else if filter (\<lambda>l. l_user_id l = uid \<and> l_post_id l = postId) (likes (store w)) \<noteq> []
      then Some (Reply 409 False ''Post already liked'' NoData)
      else if user_exists uid (store w) \<and> likes_fit postId (store w)
      then Some (Reply 200 True ''Post liked successfully'' NoData)
      else Some (Reply 500 False ''Internal server error'' NoData))"
  using assms
  by (simp add: like_post_def pool_connect_calm tx_begin_calm client_query_calm tx_commit_calm
      rollback_reply_calm rollback_500_calm select_post_by_id_def select_like_def
      insert_like_def increment_likes_def likes_fit_def internal_error_def)

lemma like_post_out_of_range:
  assumes "txn w = None" and "faults w = []" and "\<not> int4 postId"
  shows "fst (like_post uid postId w) = Some (Reply 500 False ''Internal server error'' NoData)"
  using assms
  by (simp add: like_post_def pool_connect_calm tx_begin_calm client_query_calm
      rollback_500_calm select_post_by_id_def internal_error_def)

lemma liked_has_like:
  "filter (\<lambda>l. l_user_id l = uid \<and> l_post_id l = postId) (likes (liked uid postId d)) \<noteq> []"
  by (simp add: liked_def)

lemma filter_map_keep: "(\<And>x. P (f x) = P x) \<Longrightarrow> filter P (map f xs) = map f (filter P xs)"
  by (induction xs) auto

lemma liked_keeps_post:
  "filter (\<lambda>p. p_id p = postId) (posts d) \<noteq> [] \<Longrightarrow>
   filter (\<lambda>p. p_id p = postId) (posts (liked uid postId d)) \<noteq> []"
  by (simp add: liked_def filter_map_keep)

lemma aon_same: "all_or_nothing d d res \<Longrightarrow> store (snd res) = d"
  by (auto simp: all_or_nothing_def split: option.splits if_splits)

section \<open>Joining a group\<close>







section \<open>Deleting a post\<close>

lemma cleanup_image_any:
  "cleanup_image url destroyed w =
     (case extractPublicId url of None \<Rightarrow> w | Some publicId \<Rightarrow> emit Destroy w)"
  by (simp add: cleanup_image_def deleteFromCloudinary_def split: option.splits)

lemma cleanup_image_fields [simp]:
  "store (cleanup_image url destroyed w) = store w"
  "txn (cleanup_image url destroyed w) = txn w"
  by (simp_all add: cleanup_image_any split: option.splits)

lemma delete_post_calm:
  assumes "faults w = []" and "owns_post uid postId (store w)"
  shows "fst (delete_post_handler uid postId destroyed w)
           = Some (Reply 200 True ''Post deleted successfully'' NoData)
       \<and> store (snd (delete_post_handler uid postId destroyed w)) = without_post postId (store w)"
  using assms
  by (auto simp: delete_post_handler_def pool_query_calm select_post_by_id_def delete_post_def
      owns_post_def without_post_def split: list.splits if_splits)

lemma delete_group_post_calm:
  assumes "faults w = []" and "txn w = None" and "owns_group_post uid groupId postId (store w)"
  shows "fst (delete_group_post uid groupId postId destroyed w)
           = Some (Reply 200 True ''Post deleted'' NoData)
       \<and> store (snd (delete_group_post uid groupId postId destroyed w))
           = without_post postId (store w)"
  using assms
  by (auto simp: delete_group_post_def pool_connect_calm client_query_auto_calm
      select_group_post_def delete_post_def owns_group_post_def without_post_def
      split: list.splits if_splits)

lemma destroy_outcome_unseen:
  "delete_post_handler uid postId False w = delete_post_handler uid postId True w"
  "delete_group_post uid groupId postId False w = delete_group_post uid groupId postId True w"
  unfolding delete_post_handler_def delete_group_post_def cleanup_image_any by (rule refl)+

section \<open>Creating a post\<close>

lemma create_post_trace:
  "trace (snd (create_post uid cap file cloud w))
     \<in> {trace w, trace w @ [Upload], trace w @ [Upload, Statement]}"
  by (auto simp: create_post_def uploadToCloudinary_def pool_query_def tick_def
      split: sum.splits prod.splits outcome.splits list.splits bool.splits option.splits)

section \<open>Listings and the feed\<close>

text \<open>Facts about the doubles: the integers below \<open>2 ^ 53\<close> are exact.\<close>

declare bit_length.simps [simp del]

lemma bit_length_le: "n < 2 ^ k \<Longrightarrow> bit_length n \<le> k"
proof (induction k arbitrary: n)
  case 0
  then show ?case by (simp add: bit_length.simps)
next
  case (Suc k)
  then have "n div 2 < 2 ^ k" by simp
  then have "bit_length (n div 2) \<le> k" by (rule Suc.IH)
  then show ?case by (subst bit_length.simps) simp
qed

lemma bit_length_upper: "n < 2 ^ bit_length n"
proof (induction n rule: bit_length.induct)
  case (1 n)
  show ?case
  proof (cases "n = 0")
    case True
    then show ?thesis by simp
  next
    case False
    then have "n div 2 < 2 ^ bit_length (n div 2)" by (rule 1)
    then have "n < 2 * 2 ^ bit_length (n div 2)" by simp
    then show ?thesis using False by (subst bit_length.simps) simp
  qed
qed

lemma bit_length_lower: "0 < n \<Longrightarrow> 2 ^ (bit_length n - 1) \<le> n"
proof (induction n rule: bit_length.induct)
  case (1 n)
  then have n: "n \<noteq> 0" by simp
  have bl: "bit_length n - 1 = bit_length (n div 2)"
    using n by (subst bit_length.simps) simp
  show ?case
  proof (cases "n div 2 = 0")
    case True
    then show ?thesis using n unfolding bl by (simp add: bit_length.simps)
  next
    case False
    then have "2 ^ (bit_length (n div 2) - 1) \<le> n div 2" using 1(1) n by simp
    moreover have "0 < bit_length (n div 2)" using False by (subst bit_length.simps) simp
    ultimately have "2 ^ bit_length (n div 2) \<le> 2 * (n div 2)"
      by (cases "bit_length (n div 2)") simp_all
    then show ?thesis unfolding bl by simp
  qed
qed

lemma to_double_exact: "\<bar>i\<bar> < 2 ^ 53 \<Longrightarrow> to_double i = Some i"
proof -
  assume a: "\<bar>i\<bar> < 2 ^ 53"
  then have "nat \<bar>i\<bar> < 2 ^ 53" by (simp add: nat_less_iff)
  then have "bit_length (nat \<bar>i\<bar>) - 53 = 0" using bit_length_le [of "nat \<bar>i\<bar>" 53] by simp
  moreover have "(nat \<bar>i\<bar>) < 2 ^ 1024" using \<open>nat \<bar>i\<bar> < 2 ^ 53\<close>
    by (rule less_le_trans) simp
  ultimately show ?thesis by (auto simp: to_double_def Let_def)
qed


lemma to_double_parts:
  fixes n :: nat
  defines "u \<equiv> 2 ^ (bit_length n - 53)"
  assumes "0 < n"
  shows "u \<le> n" and "(n div u) * u \<le> n" and "2 ^ (bit_length n - 1) \<le> (n div u) * u"
proof -
  have low: "2 ^ (bit_length n - 1) \<le> n" by (rule bit_length_lower [OF assms(2)])
  have "(2::nat) ^ (bit_length n - 53) \<le> 2 ^ (bit_length n - 1)"
    by (rule power_increasing) simp_all
  from this low show "u \<le> n" unfolding u_def by (rule order_trans)
  show "(n div u) * u \<le> n" by simp
  have "u dvd 2 ^ (bit_length n - 1)"
    unfolding u_def by (rule le_imp_power_dvd) simp
  then obtain c where c: "2 ^ (bit_length n - 1) = c * u" by (auto simp: dvd_def mult.commute)
  have "0 < u" by (simp add: u_def)
  have "c \<le> n div u"
    using low c \<open>0 < u\<close> by (simp add: less_eq_div_iff_mult_less_eq)
  then show "2 ^ (bit_length n - 1) \<le> (n div u) * u"
    unfolding c by (rule mult_le_mono1)
qed

lemma to_double_finite:
  assumes "\<bar>i\<bar> < 2 ^ 64"
  shows "\<exists>v. to_double i = Some v"
proof (cases "i = 0")
  case True
  then show ?thesis using to_double_exact [of 0] by simp
next
  case False
  define n where "n = nat \<bar>i\<bar>"
  define u :: nat where "u = 2 ^ (bit_length n - 53)"
  have n: "0 < n" "n < 2 ^ 64" using False assms by (simp_all add: n_def nat_less_iff)
  have un: "u \<le> n"
    using to_double_parts(1) [OF n(1)] by (simp add: u_def)
  have qu: "(n div u) * u \<le> n" by simp
  have "(n div u + 1) * u = (n div u) * u + u" by simp
  with un qu have "(n div u + 1) * u \<le> 2 * n" "(n div u) * u \<le> 2 * n" by linarith+
  moreover have "2 * n < 2 ^ 1024"
  proof -
    have "2 * n < 2 ^ 65" using n(2) by simp
    also have "(2::nat) ^ 65 \<le> 2 ^ 1024" by (rule power_increasing) simp_all
    finally show ?thesis .
  qed
  ultimately have "(n div u + 1) * u < 2 ^ 1024" "(n div u) * u < 2 ^ 1024"
    by linarith+
  then show ?thesis
    unfolding to_double_def Let_def n_def [symmetric] u_def [symmetric]
    by (simp add: not_le)
qed

lemma to_double_large:
  assumes "2 ^ 53 \<le> \<bar>c\<bar>" and "to_double c = Some v"
  shows "2 ^ 53 \<le> \<bar>v\<bar>"
proof -
  define n where "n = nat \<bar>c\<bar>"
  define u :: nat where "u = 2 ^ (bit_length n - 53)"
  define m where "m = (if u < 2 * (n mod u) \<or> (2 * (n mod u) = u \<and> odd (n div u))
                       then n div u + 1 else n div u)"
  have n: "2 ^ 53 \<le> n" using assms(1) by (simp add: n_def le_nat_iff)
  then have pos: "0 < n" by (simp add: less_le_trans [of 0 "2 ^ 53"])
  have "54 \<le> bit_length n"
  proof (rule ccontr)
    assume "\<not> 54 \<le> bit_length n"
    then have "bit_length n \<le> 53" by simp
    then have "(2::nat) ^ bit_length n \<le> 2 ^ 53" by (rule power_increasing) simp
    with bit_length_upper [of n] n show False by simp
  qed
  then have "(2::nat) ^ 53 \<le> 2 ^ (bit_length n - 1)" by (intro power_increasing) simp_all
  also have "\<dots> \<le> (n div u) * u" using to_double_parts(3) [OF pos] by (simp add: u_def)
  also have "\<dots> \<le> m * u" by (simp add: m_def)
  finally have big: "2 ^ 53 \<le> m * u" .
  have "\<bar>v\<bar> = int (m * u)"
    using assms(2) unfolding to_double_def Let_def n_def [symmetric] u_def [symmetric]
      m_def [symmetric]
    by (auto split: if_splits)
  moreover have "int (2 ^ 53) \<le> int (m * u)" using big by (rule of_nat_mono)
  ultimately show ?thesis by simp
qed

lemma reads_back_exact:
  assumes "\<bar>v\<bar> < 2 ^ 53" and "to_double c = Some v"
  shows "c = v"
proof (cases "\<bar>c\<bar> < 2 ^ 53")
  case True
  then show ?thesis using to_double_exact [of c] assms(2) by simp
next
  case False
  then show ?thesis using to_double_large [of c v] assms by simp
qed

lemma shortest_exact: "\<bar>v\<bar> < 2 ^ 53 \<Longrightarrow> shortest j v = v"
proof (induction j)
  case 0
  then show ?case by simp
next
  case (Suc j)
  have "\<forall>c\<in>set (reads_back v (Suc j)). c = v"
    using reads_back_exact [OF Suc.prems] by (auto simp: reads_back_def)
  then show ?case
    using Suc by (auto split: list.splits)
qed

lemma number_param_exact: "\<bar>v\<bar> < 2 ^ 53 \<Longrightarrow> number_param (Some v) = Some v"
proof -
  assume a: "\<bar>v\<bar> < 2 ^ 53"
  have "(2::int) ^ 53 \<le> 10 ^ 21" by simp
  with a have "\<not> 10 ^ 21 \<le> \<bar>v\<bar>" by linarith
  then show ?thesis using a by (simp add: number_param_def shortest_exact)
qed


lemma js_offset_exact:
  assumes "0 \<le> k" and "k + 1 < 2 ^ 53" and "0 < lim" and "lim < 2 ^ 63"
    and "k * lim < 2 ^ 53"
  shows "number_param (js_offset (k + 1) lim) = Some (k * lim)"
proof -
  have p: "to_double (k + 1) = Some (k + 1)" "to_double (k + 1 - 1) = Some k"
    using assms(1,2) by (simp_all add: to_double_exact)
  obtain l where l: "to_double lim = Some l"
    using to_double_finite [of lim] assms(3,4) by auto
  have prod: "to_double (k * l) = Some (k * lim)"
  proof (cases "k = 0")
    case True
    then show ?thesis by (simp add: to_double_exact)
  next
    case False
    then have "1 \<le> k" using assms(1) by simp
    then have "1 * lim \<le> k * lim" using assms(3) by (intro mult_right_mono) simp_all
    then have "lim \<le> k * lim" by (simp only: mult_1)
    with assms(3,5) have "\<bar>lim\<bar> < 2 ^ 53" by linarith
    then have "l = lim" using l by (simp add: to_double_exact)
    moreover have "\<bar>k * lim\<bar> < 2 ^ 53" using assms(1,3,5) by (simp add: abs_mult)
    ultimately show ?thesis by (simp add: to_double_exact)
  qed
  have "\<bar>k * lim\<bar> < 2 ^ 53" using assms(1,3,5) by (simp add: abs_mult)
  then show ?thesis
    unfolding js_offset_def using p l prod by (simp add: number_param_exact)
qed

lemma page_exists:
  assumes "x \<in> set xs" and "0 < lim" and "int8 lim" and "int (length xs) < 2 ^ 53"
  shows "\<exists>page\<ge>1. \<exists>off rows. number_param (js_offset page lim) = Some off
           \<and> limit_offset lim off xs = Some rows \<and> x \<in> set rows"
proof -
  obtain i where i: "i < length xs" "xs ! i = x"
    using assms(1) by (auto simp: in_set_conv_nth)
  define l where "l = nat lim"
  have l: "0 < l" "int l = lim" using assms(2) by (simp_all add: l_def)
  define k where "k = i div l"
  have "i - k * l = i mod l"
    by (simp add: k_def minus_div_mult_eq_mod)
  then have off: "k * l \<le> i" "i - k * l < l"
    using l(1) by (simp_all add: k_def)
  have small: "int (k * l) < 2 ^ 53" "int k + 1 < 2 ^ 53"
  proof -
    have "k * l \<le> i" by (rule off)
    then have "int (k * l) \<le> int i" by (rule of_nat_mono)
    moreover have "int i < int (length xs)" using i(1) by simp
    ultimately show "int (k * l) < 2 ^ 53" using assms(4) by linarith
    have "k \<le> i" by (simp add: k_def)
    then have "int k \<le> int i" by (rule of_nat_mono)
    moreover have "int i + 1 \<le> int (length xs)" using i(1) by simp
    ultimately show "int k + 1 < 2 ^ 53" using assms(4) by linarith
  qed
  have lim63: "lim < 2 ^ 63" using assms(3) by (simp add: int8_def)
  have e: "int (k * l) = int k * lim" using l(2) by simp
  have "number_param (js_offset (int k + 1) lim) = Some (int k * lim)"
    by (rule js_offset_exact) (use small assms(2) lim63 in \<open>simp_all add: e [symmetric] del: of_nat_mult\<close>)
  then have np: "number_param (js_offset (int k + 1) lim) = Some (int (k * l))"
    unfolding e .
  have "int8 (int (k * l))"
    using small(1) by (simp add: int8_def del: of_nat_mult)
  then have lo: "limit_offset lim (int (k * l)) xs = Some (take l (drop (k * l) xs))"
    using assms(2,3) by (simp add: limit_offset_def l_def del: of_nat_mult)
  have "take l (drop (k * l) xs) ! (i - k * l) = x"
    using i off by simp
  moreover have "i - k * l < length (take l (drop (k * l) xs))"
    using i off by simp
  ultimately have "x \<in> set (take l (drop (k * l) xs))"
    by (metis nth_mem)
  with lo np show ?thesis by (intro exI [of _ "int k + 1"]) simp
qed

lemma concat_one_key:
  assumes "distinct (map f us)" and "\<And>u. length (g u) \<le> 1"
  shows "length (concat (map (\<lambda>u. if k = f u then g u else []) us)) \<le> 1"
  using assms(1)
proof (induction us)
  case Nil
  then show ?case by simp
next
  case (Cons a us)
  show ?case
  proof (cases "k = f a")
    case True
    then have "\<forall>u\<in>set us. f a \<noteq> f u" using Cons.prems by auto
    then have rest: "concat (map (\<lambda>u. if f a = f u then g u else []) us) = []"
      by (induction us) auto
    show ?thesis unfolding True using assms(2) [of a] by (simp add: rest)
  next
    case False
    then show ?thesis using Cons by simp
  qed
qed

lemma concat_short:
  "(\<And>p. p \<in> set ps \<Longrightarrow> length (h p) \<le> 1) \<Longrightarrow> length (concat (map h ps)) \<le> length ps"
proof (induction ps)
  case Nil
  then show ?case by simp
next
  case (Cons a ps)
  have "length (h a) \<le> 1" by (rule Cons.prems) simp
  moreover have "length (concat (map h ps)) \<le> length ps"
  proof (rule Cons.IH)
    fix p assume "p \<in> set ps"
    then show "length (h p) \<le> 1" using Cons.prems [of p] by simp
  qed
  ultimately show ?case by simp
qed

lemma user_posts_rows_length:
  assumes "distinct (map u_id (users d))"
  shows "length (user_posts_rows uid d) \<le> length (posts d)"
  unfolding user_posts_rows_def length_sort
  by (intro concat_short) (rule concat_one_key [OF assms], simp)

lemma feed_rows_length:
  assumes "distinct (map u_id (users d))"
  shows "length (feed_rows f d) \<le> length (posts d)"
  unfolding feed_rows_def length_sort
  by (intro concat_short) (rule concat_one_key [OF assms], simp)

lemma in_user_posts_rows:
  "p \<in> set (posts d) \<Longrightarrow> u \<in> set (users d) \<Longrightarrow> u_id u = p_user_id p
     \<Longrightarrow> p \<in> set (user_posts_rows (p_user_id p) d)"
  by (auto simp: user_posts_rows_def)

lemma in_feed_rows:
  "p \<in> set (posts d) \<Longrightarrow> u \<in> set (users d) \<Longrightarrow> u_id u = p_user_id p
     \<Longrightarrow> p_user_id p = f \<or> \<lparr>follower_id = f, following_id = p_user_id p\<rparr> \<in> set (followers d)
     \<Longrightarrow> p \<in> fst ` set (feed_rows f d)"
  by (force simp: feed_rows_def image_iff)

lemma get_user_posts_calm:
  assumes "faults w = []" and "resolves_to name uid (store w)"
    and "number_param (js_offset page limit) = Some off"
    and "limit_offset limit off (user_posts_rows uid (store w)) = Some rows"
  shows "fst (get_user_posts name page limit w)
      = Some (Reply 200 True [] (PostPage rows
          (int (length (filter (\<lambda>p. p_user_id p = uid) (posts (store w)))))))"
  using assms
  by (auto simp: get_user_posts_def pool_query_calm select_active_user_def
      select_user_posts_def count_user_posts_def resolves_to_def split: list.splits if_splits)

lemma get_feed_calm:
  assumes "faults w = []"
    and "number_param (js_offset page limit) = Some off"
    and "limit_offset limit off (feed_rows uid (store w)) = Some rows"
  shows "fst (get_feed uid page limit w) = Some (Reply 200 True [] (Feed rows))"
  using assms
  by (auto simp: get_feed_def pool_query_calm select_feed_def)

lemma user_exists_row: "user_exists uid d \<Longrightarrow> \<exists>u. u \<in> set (users d) \<and> u_id u = uid"
  by (auto simp: user_exists_def filter_empty_conv)

lemma insert_post_result:
  "insert_post uid cap url gidopt now d = Some (p, d') \<Longrightarrow>
     d' = with_post p d \<and> p_user_id p = uid \<and> group_id p = gidopt \<and> user_exists uid d"
  by (auto simp: insert_post_def with_post_def Let_def split: if_splits)

lemma create_group_post_created:
  assumes t: "txn w = None"
    and ok: "fst (create_group_post uid gid cap file cloud w)
           = Some (Reply 201 True ''Post created'' (PostData p))"
  shows "store (snd (create_group_post uid gid cap file cloud w)) = with_post p (store w)
       \<and> p_user_id p = uid \<and> group_id p = Some gid \<and> user_exists uid (store w)"
proof -
  obtain r0 w0 where c0: "pool_connect w = (r0, w0)" by (cases "pool_connect w")
  have s0: "store w0 = store w" "txn w0 = None" using pool_connect_any [OF c0] t by simp_all
  obtain r1 w1 where c1: "client_query (select_member gid uid) w0 = (r1, w1)"
    by (cases "client_query (select_member gid uid) w0")
  have s1: "store w1 = store w" "txn w1 = None"
    using client_query_auto_any [OF c1 s0(2)] s0(1) by (auto simp: select_member_def)
  define up where "up = (if file \<noteq> None then
              (case uploadToCloudinary cloud w1 of
                 (Inl err, w2) \<Rightarrow> (Inl err, w2)
               | (Inr secure_url, w2) \<Rightarrow> (Inr (Some secure_url), w2))
            else (Inr None, w1))"
  obtain r2 w2 where c2: "up = (r2, w2)" by (cases up)
  have s2: "store w2 = store w" "txn w2 = None"
    using c2 s1 by (auto simp: up_def uploadToCloudinary_def split: if_splits sum.splits)
  show ?thesis
  proof (cases r0)
    case Thrown
    then show ?thesis using ok c0 by (simp add: create_group_post_def)
  next
    case d0: (Done u0)
    show ?thesis
    proof (cases r1)
      case Thrown
      then show ?thesis using ok c0 c1 d0 by (simp add: create_group_post_def internal_error_def)
    next
      case d1: (Done rows)
      show ?thesis
      proof (cases "rows = []")
        case True
        then show ?thesis using ok c0 c1 d0 d1 by (simp add: create_group_post_def)
      next
        case False
        have h: "create_group_post uid gid cap file cloud w =
            (case up of
               (Inl err, w2) \<Rightarrow>
                 (Some (Reply 500 False ''Image upload failed'' NoData), client_release w2)
             | (Inr imageUrl, w2) \<Rightarrow>
                 (case client_query (insert_post uid (caption_or_empty cap) imageUrl (Some gid)
                           (clock w2)) w2 of
                    (Thrown, w3) \<Rightarrow> (Some internal_error, client_release w3)
                  | (Done p, w3) \<Rightarrow>
                      (Some (Reply 201 True ''Post created'' (PostData p)), client_release w3)))"
          using c0 c1 d0 d1 False unfolding create_group_post_def up_def by simp
        show ?thesis
        proof (cases r2)
          case (Inl err)
          then show ?thesis using ok unfolding h c2 by simp
        next
          case (Inr url)
          obtain r3 w3 where c3: "client_query (insert_post uid (caption_or_empty cap) url
                (Some gid) (clock w2)) w2 = (r3, w3)"
            by (cases "client_query (insert_post uid (caption_or_empty cap) url
                (Some gid) (clock w2)) w2")
          show ?thesis
          proof (cases r3)
            case Thrown
            then show ?thesis using ok unfolding h c2 Inr by (simp add: c3 internal_error_def)
          next
            case (Done x)
            then have ins: "insert_post uid (caption_or_empty cap) url (Some gid) (clock w2)
                (store w2) = Some (x, store w3)"
              using client_query_auto_any [OF c3 s2(2)] by auto
            have "x = p" and "snd (create_group_post uid gid cap file cloud w) = client_release w3"
              using ok Done unfolding h c2 Inr by (simp_all add: c3)
            then show ?thesis using insert_post_result [OF ins] s2(1) by simp
          qed
        qed
      qed
    qed
  qed
qed

lemma with_post_fields [simp]:
  "posts (with_post p d) = posts d @ [p]" "users (with_post p d) = users d"
  "followers (with_post p d) = followers d"
  "resolves_to name uid (with_post p d) = resolves_to name uid d"
  by (simp_all add: with_post_def resolves_to_def select_active_user_def)

lemma request_fields [simp]:
  "store (request d fs) = d" "faults (request d fs) = fs" "txn (request d fs) = None"
  "trace (request d fs) = []" "clock (request d fs) = 100"
  by (simp_all add: request_def)

section \<open>Refreshing a session\<close>







section \<open>Effects and the counters\<close>

lemma like_post_effect:
  assumes "txn w = None"
  shows "all_or_nothing (store w) (like_effect uid postId (store w)) (like_post uid postId w)"
  using at_start [OF assms] unfolding like_post_def
  apply -
  apply (erule aon_steps | rule aon_if
      | (erule aon_leaves,
          fastforce simp: like_effect_def liked_def select_post_by_id_def select_like_def
            insert_like_def increment_likes_def split: if_splits))+
  done

lemma unlike_post_effect:
  assumes "txn w = None"
  shows "all_or_nothing (store w) (unlike_effect uid postId (store w)) (unlike_post uid postId w)"
  using at_start [OF assms] unfolding unlike_post_def
  apply -
  apply (erule aon_steps | rule aon_if
      | (erule aon_leaves,
          fastforce simp: unlike_effect_def delete_like_def decrement_likes_def
            split: if_splits))+
  done

lemma add_comment_effect:
  assumes "txn w = None"
  shows "all_or_nothing (store w)
           (comment_effect uid postId (case commentText of None \<Rightarrow> [] | Some s \<Rightarrow> s) (store w))
           (add_comment uid postId commentText w)"
  using at_start [OF assms] unfolding add_comment_def
  apply -
  apply (erule aon_steps | rule aon_if
      | (erule aon_leaves,
          fastforce simp: comment_effect_def select_post_by_id_def insert_comment_def
            increment_comments_def Let_def split: if_splits))+
  done

lemma delete_comment_effect:
  assumes "txn w = None"
  shows "all_or_nothing (store w) (uncomment_effect postId commentId (store w))
           (delete_comment_handler uid postId commentId w)"
  using at_start [OF assms] unfolding delete_comment_handler_def
  apply -
  apply (erule aon_steps | rule aon_if aon_list
      | (erule aon_leaves,
          fastforce simp: uncomment_effect_def select_comment_by_id_def delete_comment_def
            decrement_comments_def split: if_splits))+
  done

lemma aon_reply_cleanup:
  "at d None w \<Longrightarrow> (if success x then d = d1 else d = d0)
     \<Longrightarrow> all_or_nothing d0 d1 (Some x, cleanup_image url destroyed w)"
  by (auto simp: at_def all_or_nothing_def)

lemma delete_post_effect:
  assumes "txn w = None"
  shows "all_or_nothing (store w) (without_post postId (store w))
           (delete_post_handler uid postId destroyed w)"
  using at_start [OF assms] unfolding delete_post_handler_def
  apply -
  apply (erule aon_steps | rule aon_if aon_list
      | (erule aon_leaves aon_reply_cleanup,
          fastforce simp: without_post_def select_post_by_id_def delete_post_def
            internal_error_def split: if_splits))+
  done

lemma aon_option:
  "(x = None \<Longrightarrow> all_or_nothing d0 d1 a)
     \<Longrightarrow> (\<And>y. x = Some y \<Longrightarrow> all_or_nothing d0 d1 (b y))
     \<Longrightarrow> all_or_nothing d0 d1 (case x of None \<Rightarrow> a | Some y \<Rightarrow> b y)"
  by (cases x) auto

lemma add_member_effect:
  assumes "txn w = None"
  shows "all_or_nothing (store w) (add_effect uid groupId newUserId (store w))
           (add_member uid groupId newUserId w)"
  using at_start [OF assms] unfolding add_member_def case_of_if
  apply -
  apply (erule aon_steps | rule aon_if aon_list aon_option
      | (simp only: prod.case outcome.case)
      | (erule aon_leaves,
          fastforce simp: add_effect_def joined_def select_member_def
            insert_member_on_conflict_def increment_members_def is_admin_def
            split: if_splits option.splits list.splits))+
  done

lemma join_group_effect:
  assumes "txn w = None"
  shows "all_or_nothing (store w) (join_effect uid groupId (store w)) (join_group uid groupId w)"
  using at_start [OF assms] unfolding join_group_def case_of_if
  apply -
  apply (erule aon_steps | rule aon_if aon_list
      | (simp only: prod.case outcome.case)
      | (erule aon_leaves,
          fastforce simp: join_effect_def joined_def select_group_def
            insert_member_on_conflict_def increment_members_def split: if_splits))+
  done

lemma remove_member_effect:
  assumes "txn w = None"
  shows "all_or_nothing (store w) (leave_effect groupId memberId (store w))
           (remove_member uid groupId memberId w)"
  using at_start [OF assms] unfolding remove_member_def
  apply -
  apply (erule aon_steps | rule aon_if aon_list
      | (erule aon_leaves,
          fastforce simp: leave_effect_def select_member_def delete_member_def
            decrement_members_def split: if_splits))+
  done


lemma aon_create_group_catch:
  "at d t w \<Longrightarrow> d = d0 \<Longrightarrow> all_or_nothing d0 d1 (create_group_catch w)"
  by (cases "tx_rollback w")
    (auto simp: at_def all_or_nothing_def internal_error_def create_group_catch_def
      split: outcome.splits dest!: tx_rollback_any)

lemma create_group_atomic:
  assumes "txn w = None"
  shows "all_or_nothing (store w)
           (create_group_effect ownerId (case name of None \<Rightarrow> [] | Some s \<Rightarrow> s) private (store w))
           (create_group ownerId name private w)"
  using at_start [OF assms] unfolding create_group_def
  apply -
  apply (erule aon_steps | rule aon_if aon_list
      | (erule aon_leaves aon_create_group_catch,
          fastforce simp: create_group_effect_def insert_group_def insert_member_def
            increment_members_def member_rows_def internal_error_def Let_def
            split: if_splits))+
  done

lemma aon_keeps:
  "all_or_nothing d0 d1 res \<Longrightarrow> sound d0 \<Longrightarrow> sound d1 \<Longrightarrow> sound (store (snd res))"
  by (auto simp: all_or_nothing_def split: option.splits if_splits)

lemma like_effect_sound: "sound d \<Longrightarrow> sound (like_effect uid postId d)"
  by (auto simp: sound_def well_formed_def counters_consistent_def post_counters_ok_def
      group_counter_ok_def like_effect_def liked_def list_all_iff filter_empty_conv)

lemma comment_effect_sound: "sound d \<Longrightarrow> sound (comment_effect uid postId txt d)"
  by (fastforce simp: sound_def well_formed_def counters_consistent_def post_counters_ok_def
      group_counter_ok_def comment_effect_def list_all_iff)

lemma joined_sound:
  "sound d \<Longrightarrow> gid \<le> groups_seq d \<Longrightarrow> sound (joined uid gid d)"
  by (auto simp: sound_def well_formed_def counters_consistent_def post_counters_ok_def
      group_counter_ok_def joined_def member_rows_def list_all_iff filter_empty_conv)

lemma join_effect_sound: "sound d \<Longrightarrow> sound (join_effect uid gid d)"
proof (cases "filter (\<lambda>g. g_id g = gid) (groups d) = []")
  case True
  then show "sound d \<Longrightarrow> ?thesis" by (simp add: join_effect_def)
next
  case False
  then obtain g where "g \<in> set (groups d)" "g_id g = gid"
    by (auto simp: filter_empty_conv)
  moreover assume s: "sound d"
  ultimately have "gid \<le> groups_seq d"
    by (auto simp: sound_def well_formed_def list_all_iff)
  with s False show ?thesis by (simp add: join_effect_def joined_sound)
qed

lemma add_effect_sound: "sound d \<Longrightarrow> sound (add_effect uid gid newUserId d)"
proof (cases "newUserId = None \<or> member_rows gid uid d = []")
  case True
  then show "sound d \<Longrightarrow> ?thesis" by (auto simp: add_effect_def split: option.splits)
next
  case False
  then obtain n m where n: "newUserId = Some n" and "m \<in> set (group_members d)" "m_group_id m = gid"
    by (auto simp: member_rows_def filter_empty_conv)
  moreover assume s: "sound d"
  ultimately have "gid \<le> groups_seq d"
    by (auto simp: sound_def well_formed_def list_all_iff)
  with s False n show ?thesis by (simp add: add_effect_def joined_sound)
qed

lemma length_filter_without_key:
  "distinct (map key xs) \<Longrightarrow> x \<in> set xs \<Longrightarrow>
     length (filter Q (filter (\<lambda>y. key y \<noteq> key x) xs)) + (if Q x then 1 else 0)
       = length (filter Q xs)"
proof (induction xs)
  case Nil
  then show ?case by simp
next
  case (Cons a xs)
  show ?case
  proof (cases "a = x")
    case True
    then have "filter (\<lambda>y. key y \<noteq> key x) xs = xs"
      using Cons.prems(1) by (auto simp: filter_id_conv image_iff)
    with True show ?thesis by simp
  next
    case False
    then have "x \<in> set xs" "key a \<noteq> key x"
      using Cons.prems by (auto simp: image_iff)
    with Cons.IH Cons.prems(1) show ?thesis by auto
  qed
qed


lemma without_post_sound: "sound d \<Longrightarrow> sound (without_post postId d)"
  by (auto simp: sound_def well_formed_def counters_consistent_def post_counters_ok_def
      group_counter_ok_def without_post_def list_all_iff distinct_map_filter
      intro!: arg_cong [where f = length] filter_cong)

lemma posts_ok_after:
  assumes "list_all (post_counters_ok d) (posts d)"
    and "posts d' = map f (posts d)"
    and "\<And>p. p \<in> set (posts d) \<Longrightarrow> post_counters_ok d p \<Longrightarrow> post_counters_ok d' (f p)"
  shows "list_all (post_counters_ok d') (posts d')"
  using assms by (auto simp: list_all_iff)

lemma groups_ok_after:
  assumes "list_all (group_counter_ok d) (groups d)"
    and "groups d' = map f (groups d)"
    and "\<And>g. g \<in> set (groups d) \<Longrightarrow> group_counter_ok d g \<Longrightarrow> group_counter_ok d' (f g)"
  shows "list_all (group_counter_ok d') (groups d')"
  using assms by (auto simp: list_all_iff)

lemma unlike_effect_sound:
  assumes "sound d"
  shows "sound (unlike_effect uid postId d)"
proof (cases "filter (\<lambda>l. l_user_id l = uid \<and> l_post_id l = postId) (likes d) = []")
  case True
  with assms show ?thesis by (simp add: unlike_effect_def)
next
  case False
  then obtain x where x: "x \<in> set (likes d)" "l_user_id x = uid" "l_post_id x = postId"
    by (auto simp: filter_empty_conv)
  let ?key = "\<lambda>l. (l_user_id l, l_post_id l)"
  let ?d = "unlike_effect uid postId d"
  have d: "distinct (map ?key (likes d))"
    using assms by (simp add: sound_def well_formed_def)
  have count: "length (filter (\<lambda>l. l_post_id l = i)
                 (filter (\<lambda>y. ?key y \<noteq> (uid, postId)) (likes d)))
      + (if i = postId then 1 else 0) = length (filter (\<lambda>l. l_post_id l = i) (likes d))" for i
    using length_filter_without_key [OF d x(1), of "\<lambda>l. l_post_id l = i"] x by auto
  have wf: "well_formed ?d"
    using assms False by (simp add: sound_def well_formed_def unlike_effect_def distinct_map_filter)
  have "list_all (post_counters_ok ?d) (posts ?d)"
  proof (rule posts_ok_after)
    show "list_all (post_counters_ok d) (posts d)"
      using assms by (simp add: sound_def counters_consistent_def)
    show "posts ?d = map (\<lambda>p. if p_id p = postId
                                then p\<lparr>likes_count := max (likes_count p - 1) 0\<rparr> else p)
                        (posts d)"
      using False by (simp add: unlike_effect_def)
    show "post_counters_ok ?d (if p_id p = postId
                                then p\<lparr>likes_count := max (likes_count p - 1) 0\<rparr> else p)"
      if "post_counters_ok d p" for p
      using that False count [of "p_id p"]
      by (auto simp: post_counters_ok_def unlike_effect_def)
  qed
  moreover have "list_all (group_counter_ok ?d) (groups ?d)"
    using assms False
    by (simp add: sound_def counters_consistent_def group_counter_ok_def unlike_effect_def
        list_all_iff)
  ultimately show ?thesis using wf by (simp add: sound_def counters_consistent_def)
qed

lemma uncomment_effect_sound:
  assumes "sound d" and "comment_on postId commentId d"
  shows "sound (uncomment_effect postId commentId d)"
proof (cases "filter (\<lambda>c. c_id c = commentId) (comments d) = []")
  case True
  with assms show ?thesis by (simp add: uncomment_effect_def)
next
  case False
  let ?d = "uncomment_effect postId commentId d"
  have d: "distinct (map c_id (comments d))"
    using assms by (simp add: sound_def well_formed_def)
  obtain x others where f: "filter (\<lambda>c. c_id c = commentId) (comments d) = x # others"
    using False by (cases "filter (\<lambda>c. c_id c = commentId) (comments d)") auto
  then have "x \<in> set (filter (\<lambda>c. c_id c = commentId) (comments d))" by simp
  then have x: "x \<in> set (comments d)" "c_id x = commentId" by simp_all
  have xp: "c_post_id x = postId"
    using assms(2) f by (simp add: comment_on_def)
  have count: "length (filter (\<lambda>c. c_post_id c = i)
                 (filter (\<lambda>y. c_id y \<noteq> commentId) (comments d)))
      + (if i = postId then 1 else 0) = length (filter (\<lambda>c. c_post_id c = i) (comments d))" for i
    using length_filter_without_key [OF d x(1), of "\<lambda>c. c_post_id c = i"] x xp by auto
  have wf: "well_formed ?d"
    using assms False
    by (simp add: sound_def well_formed_def uncomment_effect_def distinct_map_filter list_all_iff)
  have "list_all (post_counters_ok ?d) (posts ?d)"
  proof (rule posts_ok_after)
    show "list_all (post_counters_ok d) (posts d)"
      using assms by (simp add: sound_def counters_consistent_def)
    show "posts ?d = map (\<lambda>p. if p_id p = postId
                                then p\<lparr>comments_count := max (comments_count p - 1) 0\<rparr> else p)
                        (posts d)"
      using False by (simp add: uncomment_effect_def)
    show "post_counters_ok ?d (if p_id p = postId
                                then p\<lparr>comments_count := max (comments_count p - 1) 0\<rparr> else p)"
      if "post_counters_ok d p" for p
      using that False count [of "p_id p"]
      by (auto simp: post_counters_ok_def uncomment_effect_def)
  qed
  moreover have "list_all (group_counter_ok ?d) (groups ?d)"
    using assms False
    by (simp add: sound_def counters_consistent_def group_counter_ok_def uncomment_effect_def
        list_all_iff)
  ultimately show ?thesis using wf by (simp add: sound_def counters_consistent_def)
qed

lemma leave_effect_sound:
  assumes "sound d"
  shows "sound (leave_effect gid uid d)"
proof (cases "member_rows gid uid d = []")
  case True
  with assms show ?thesis by (simp add: leave_effect_def)
next
  case False
  then obtain x where x: "x \<in> set (group_members d)" "m_group_id x = gid" "m_user_id x = uid"
    by (auto simp: member_rows_def filter_empty_conv)
  let ?key = "\<lambda>m. (m_group_id m, m_user_id m)"
  let ?d = "leave_effect gid uid d"
  have d: "distinct (map ?key (group_members d))"
    using assms by (simp add: sound_def well_formed_def)
  have count: "length (filter (\<lambda>m. m_group_id m = i)
                 (filter (\<lambda>y. ?key y \<noteq> (gid, uid)) (group_members d)))
      + (if i = gid then 1 else 0) = length (filter (\<lambda>m. m_group_id m = i) (group_members d))"
    for i
    using length_filter_without_key [OF d x(1), of "\<lambda>m. m_group_id m = i"] x by auto
  have wf: "well_formed ?d"
    using assms False
    by (auto simp: sound_def well_formed_def leave_effect_def distinct_map_filter list_all_iff)
  have "list_all (group_counter_ok ?d) (groups ?d)"
  proof (rule groups_ok_after)
    show "list_all (group_counter_ok d) (groups d)"
      using assms by (simp add: sound_def counters_consistent_def)
    show "groups ?d = map (\<lambda>g. if g_id g = gid
                                 then g\<lparr>members_count := max (members_count g - 1) 0\<rparr>
                                 else g) (groups d)"
      using False by (simp add: leave_effect_def)
    show "group_counter_ok ?d (if g_id g = gid
                                 then g\<lparr>members_count := max (members_count g - 1) 0\<rparr>
                                 else g)"
      if "group_counter_ok d g" for g
      using that False count [of "g_id g"]
      by (auto simp: group_counter_ok_def leave_effect_def)
  qed
  moreover have "list_all (post_counters_ok ?d) (posts ?d)"
    using assms False
    by (simp add: sound_def counters_consistent_def post_counters_ok_def leave_effect_def
        list_all_iff)
  ultimately show ?thesis using wf by (simp add: sound_def counters_consistent_def)
qed

lemma create_group_effect_sound:
  assumes "sound d"
  shows "sound (create_group_effect owner name private d)"
proof (cases "member_rows (groups_seq d + 1) owner d = []")
  case False
  with assms show ?thesis by (simp add: create_group_effect_def)
next
  case True
  have none: "filter (\<lambda>m. m_group_id m = groups_seq d + 1) (group_members d) = []"
    using assms by (fastforce simp: sound_def well_formed_def list_all_iff filter_empty_conv)
  have old: "\<forall>g\<in>set (groups d). g_id g \<noteq> groups_seq d + 1"
    using assms by (fastforce simp: sound_def well_formed_def list_all_iff)
  have wf: "well_formed (create_group_effect owner name private d)"
    using assms True none
    by (fastforce simp: sound_def well_formed_def create_group_effect_def list_all_iff
        filter_empty_conv image_iff)
  have "counters_consistent (create_group_effect owner name private d)"
    using assms True none old
    by (auto simp: sound_def counters_consistent_def post_counters_ok_def group_counter_ok_def
        create_group_effect_def list_all_iff)
  with wf show ?thesis by (simp add: sound_def)
qed

lemma demo_sound: "sound demo_db"
  by (simp add: sound_def well_formed_def counters_consistent_def post_counters_ok_def
      group_counter_ok_def demo_db_def)


section \<open>Properties of the session middleware\<close>



section \<open>Properties of liking a post\<close>

text \<open>
  Claim C3, as amended. For every user and every post id within the range of the
  \<^verbatim>\<open>INTEGER\<close> column \<^verbatim>\<open>posts.id\<close>, \<open>like\<close> is an atomic unit. Whatever
  database calls fail, the handler leaves no transaction open (each failure path issues
  \<^verbatim>\<open>ROLLBACK\<close>) and the committed store is the one with exactly one more like row
  and the post's counter one higher if it answered with success, and the unchanged store
  otherwise. With a healthy database it answers 404 when the post does not exist, 409
  when the like row already exists, and otherwise 200 for a stored user and a counter
  with room for one more (500, after the rollback, when the database rejects the insert
  or the increment). Liking a second time answers 409 and, whatever fails, leaves the
  store as the first like left it: the counter is incremented once in total.
\<close>

theorem like_is_atomic_unit:
  assumes "txn w = None"
  shows "all_or_nothing (store w) (liked uid postId (store w)) (like_post uid postId w)
    \<and> (faults w = [] \<and> int4 postId \<longrightarrow>
         fst (like_post uid postId w) =
           (if filter (\<lambda>p. p_id p = postId) (posts (store w)) = []
            then Some (Reply 404 False ''Post not found'' NoData)
            else if filter (\<lambda>l. l_user_id l = uid \<and> l_post_id l = postId) (likes (store w)) \<noteq> []
            then Some (Reply 409 False ''Post already liked'' NoData)
            else if user_exists uid (store w) \<and> likes_fit postId (store w)
            then Some (Reply 200 True ''Post liked successfully'' NoData)
            else Some (Reply 500 False ''Internal server error'' NoData)))
    \<and> (faults w = [] \<and> int4 postId \<and> user_exists uid (store w) \<and> likes_fit postId (store w)
         \<and> filter (\<lambda>p. p_id p = postId) (posts (store w)) \<noteq> []
         \<and> filter (\<lambda>l. l_user_id l = uid \<and> l_post_id l = postId) (likes (store w)) = [] \<longrightarrow>
         store (snd (like_post uid postId w)) = liked uid postId (store w)
         \<and> fst (like_post uid postId ((snd (like_post uid postId w))\<lparr>faults := []\<rparr>))
             = Some (Reply 409 False ''Post already liked'' NoData)
         \<and> (\<forall>fs. store (snd (like_post uid postId ((snd (like_post uid postId w))\<lparr>faults := fs\<rparr>)))
             = liked uid postId (store w)))"
proof (intro conjI impI)
  show atomic: "all_or_nothing (store w) (liked uid postId (store w)) (like_post uid postId w)"
    by (rule like_post_atomic [OF assms])
  show "fst (like_post uid postId w) =
           (if filter (\<lambda>p. p_id p = postId) (posts (store w)) = []
            then Some (Reply 404 False ''Post not found'' NoData)
            else if filter (\<lambda>l. l_user_id l = uid \<and> l_post_id l = postId) (likes (store w)) \<noteq> []
            then Some (Reply 409 False ''Post already liked'' NoData)
            else if user_exists uid (store w) \<and> likes_fit postId (store w)
            then Some (Reply 200 True ''Post liked successfully'' NoData)
            else Some (Reply 500 False ''Internal server error'' NoData))"
    if "faults w = [] \<and> int4 postId"
    using like_post_calm [OF assms, of postId uid] that by simp
next
  assume h: "faults w = [] \<and> int4 postId \<and> user_exists uid (store w) \<and> likes_fit postId (store w)
         \<and> filter (\<lambda>p. p_id p = postId) (posts (store w)) \<noteq> []
         \<and> filter (\<lambda>l. l_user_id l = uid \<and> l_post_id l = postId) (likes (store w)) = []"
  let ?first = "like_post uid postId w"
  have ok: "fst ?first = Some (Reply 200 True ''Post liked successfully'' NoData)"
    using like_post_calm [OF assms, of postId uid] h by simp
  have st: "store (snd ?first) = liked uid postId (store w)" and tx: "txn (snd ?first) = None"
    using like_post_atomic [OF assms, of uid postId] ok by (simp_all add: all_or_nothing_def)
  show "store (snd ?first) = liked uid postId (store w)" by (rule st)
  have second: "store (snd (like_post uid postId ((snd ?first)\<lparr>faults := fs\<rparr>))) = liked uid postId (store w)" for fs
    using aon_same [OF like_post_again [of "(snd ?first)\<lparr>faults := fs\<rparr>" uid postId]] tx st
    by (simp add: liked_has_like)
  show "fst (like_post uid postId ((snd ?first)\<lparr>faults := []\<rparr>))
             = Some (Reply 409 False ''Post already liked'' NoData)"
    using like_post_calm [of "(snd ?first)\<lparr>faults := []\<rparr>" postId uid] tx st h
    by (simp add: liked_has_like liked_keeps_post)
  show "\<forall>fs. store (snd (like_post uid postId ((snd ?first)\<lparr>faults := fs\<rparr>))) = liked uid postId (store w)"
    using second by blast
qed

theorem like_is_atomic_unit_witness:
  "all_or_nothing demo_db (liked 1 2 demo_db) (like_post 1 2 (request demo_db [False, False, False, True]))
   \<and> fst (like_post 1 2 (request demo_db [])) = Some (Reply 200 True ''Post liked successfully'' NoData)
   \<and> map likes_count (posts (store (snd (like_post 1 2 (request demo_db []))))) = [1, 1, 0]
   \<and> fst (like_post 1 2 ((snd (like_post 1 2 (request demo_db [])))\<lparr>faults := []\<rparr>))
             = Some (Reply 409 False ''Post already liked'' NoData)
   \<and> map likes_count (posts (store (snd (like_post 1 2 ((snd (like_post 1 2 (request demo_db [])))\<lparr>faults := []\<rparr>))))) = [1, 1, 0]
   \<and> fst (like_post 1 9 (request demo_db [])) = Some (Reply 404 False ''Post not found'' NoData)"
proof -
  have pre: "int4 2" "int4 9" "user_exists 1 demo_db" "likes_fit 2 demo_db" "likes_fit 9 demo_db"
    by (simp_all add: int4_def user_exists_def likes_fit_def demo_db_def alice_def)
  show ?thesis
    using like_is_atomic_unit [of "request demo_db []" 1 2]
      like_is_atomic_unit [of "request demo_db [False, False, False, True]" 1 2]
      like_is_atomic_unit [of "request demo_db []" 1 9, THEN conjunct2, THEN conjunct1]
      pre
    by (simp add: request_def demo_db_def liked_def)
qed

text \<open>
  Claim C3 as stated fails on a post id that is no \<^verbatim>\<open>INTEGER\<close>: no post has the id
  2147483648, PostgreSQL rejects the lookup and the answer is 500, not 404. It fails as
  well where the counter is at the largest \<^verbatim>\<open>INTEGER\<close>: the increment is rejected and
  the answer is 500.
\<close>

theorem like_post_id_out_of_range:
  "filter (\<lambda>p. p_id p = 2147483648) (posts demo_db) = []
   \<and> fst (like_post 1 2147483648 (request demo_db []))
       = Some (Reply 500 False ''Internal server error'' NoData)
   \<and> fst (like_post 1 2147483648 (request demo_db []))
       \<noteq> Some (Reply 404 False ''Post not found'' NoData)
   \<and> fst (like_post 2 2
        (request (demo_db\<lparr>posts := map (\<lambda>p. p\<lparr>likes_count := 2147483647\<rparr>) (posts demo_db)\<rparr>) []))
       = Some (Reply 500 False ''Internal server error'' NoData)"
  by (simp add: like_post_def pool_connect_calm tx_begin_calm client_query_calm
      rollback_500_calm select_post_by_id_def select_like_def insert_like_def increment_likes_def
      int4_def user_exists_def internal_error_def demo_db_def alice_def bob_def carol_def)

section \<open>Properties of joining a group\<close>



section \<open>Properties of deleting a post\<close>

text \<open>
  Claim C8. When the post's owner deletes a post, or a post of a group, and the media
  collaborator fails to delete the image, the failure is caught and ignored: the answer
  is still the success answer, and the post row is gone together with its likes and
  comments. The outcome of the image deletion is invisible: with the same store and the
  same database faults, the handler returns the same answer and the same world whether
  the deletion failed or not, so it is never rolled back and never surfaced.
\<close>

theorem media_delete_failure_ignored:
  "(faults w = [] \<and> owns_post uid postId (store w) \<longrightarrow>
      fst (delete_post_handler uid postId False w)
        = Some (Reply 200 True ''Post deleted successfully'' NoData)
      \<and> store (snd (delete_post_handler uid postId False w)) = without_post postId (store w))
   \<and> (faults w = [] \<and> txn w = None \<and> owns_group_post uid groupId postId (store w) \<longrightarrow>
      fst (delete_group_post uid groupId postId False w)
        = Some (Reply 200 True ''Post deleted'' NoData)
      \<and> store (snd (delete_group_post uid groupId postId False w))
        = without_post postId (store w))
   \<and> delete_post_handler uid postId False w = delete_post_handler uid postId True w
   \<and> delete_group_post uid groupId postId False w = delete_group_post uid groupId postId True w"
  using delete_post_calm [of w uid postId False]
    delete_group_post_calm [of w uid groupId postId False]
    destroy_outcome_unseen
  by blast

theorem media_delete_failure_ignored_witness:
  "fst (delete_post_handler 1 1 False (request demo_db []))
     = Some (Reply 200 True ''Post deleted successfully'' NoData)
   \<and> map p_id (posts (store (snd (delete_post_handler 1 1 False (request demo_db []))))) = [2, 3]
   \<and> likes (store (snd (delete_post_handler 1 1 False (request demo_db [])))) = []
   \<and> comments (store (snd (delete_post_handler 1 1 False (request demo_db [])))) = []
   \<and> trace (snd (delete_post_handler 1 1 False (request demo_db [])))
       = [Statement, Statement, Destroy]
   \<and> fst (delete_group_post 2 2 3 False (request demo_db []))
     = Some (Reply 200 True ''Post deleted'' NoData)
   \<and> map p_id (posts (store (snd (delete_group_post 2 2 3 False (request demo_db []))))) = [1, 2]"
proof -
  have pre: "faults (request demo_db []) = []" "txn (request demo_db []) = None"
    "owns_post 1 1 (store (request demo_db []))"
    "owns_group_post 2 2 3 (store (request demo_db []))"
    by (simp_all add: request_def demo_db_def owns_post_def owns_group_post_def
        select_post_by_id_def select_group_post_def int4_def)
  have id: "extractPublicId (Some ''https://res.cloudinary.com/demo/image/upload/v1/p1.jpg'')
      = Some ''p1''"
    by (simp add: extractPublicId_def match_here_def match_tail_def is_digit_def is_word_def
        is_dot_def)
  have tr: "trace (snd (delete_post_handler 1 1 False (request demo_db [])))
       = [Statement, Statement, Destroy]"
    by (simp add: delete_post_handler_def pool_query_calm select_post_by_id_def delete_post_def
        cleanup_image_any id request_def demo_db_def int4_def)
  show ?thesis
    using media_delete_failure_ignored [of "request demo_db []" 1 1 2, THEN conjunct1]
      media_delete_failure_ignored [of "request demo_db []" 2 3 2, THEN conjunct2, THEN conjunct1]
      pre tr
    by (simp add: without_post_def request_def demo_db_def)
qed

section \<open>Properties of creating a post\<close>

text \<open>
  Claim C7 at its failing input. The upload of \<open>createPost\<close> rejects with an error
  that carries no \<^verbatim>\<open>http_code\<close> (a network error). The single \<^verbatim>\<open>catch\<close> of the
  handler tells a media error from any other by that field alone: the answer is the
  generic \<open>Internal server error\<close>, not the media failure. With an \<^verbatim>\<open>http_code\<close>
  the same handler answers \<open>Failed to upload image to cloud storage\<close>, and the group
  route answers \<open>Image upload failed\<close> for the very error that is answered generically
  here.
\<close>

theorem upload_failure_generic_answer:
  "fst (create_post 1 (Some ''hi'') (Some ''bytes'') (Inl \<lparr>http_code = None\<rparr>)
         (request demo_db []))
     = Some (Reply 500 False ''Internal server error'' NoData)
   \<and> fst (create_post 1 (Some ''hi'') (Some ''bytes'') (Inl \<lparr>http_code = None\<rparr>)
         (request demo_db []))
     \<noteq> Some (Reply 500 False ''Failed to upload image to cloud storage'' NoData)
   \<and> fst (create_post 1 (Some ''hi'') (Some ''bytes'') (Inl \<lparr>http_code = Some 400\<rparr>)
         (request demo_db []))
     = Some (Reply 500 False ''Failed to upload image to cloud storage'' NoData)
   \<and> fst (create_group_post 1 1 (Some ''hi'') (Some ''bytes'') (Inl \<lparr>http_code = None\<rparr>)
         (request demo_db []))
     = Some (Reply 500 False ''Image upload failed'' NoData)"
  by (simp add: create_post_def createPostValidation_def uploadToCloudinary_def
      has_http_code_def internal_error_def create_group_post_def pool_connect_calm
      client_query_auto_calm select_member_def member_rows_def request_def demo_db_def)

text \<open>
  Claim C6 at its failing input. The top-level route rejects a caption of 2201
  characters in its validation chain; the group route mounts no validation: for a member
  of the group the same caption is inserted and answered 201.
\<close>

theorem group_post_caption_unchecked:
  "\<not> createPostValidation (Some (replicate 2201 CHR ''a''))
   \<and> fst (create_group_post 1 1 (Some (replicate 2201 CHR ''a'')) None (Inr [])
          (request demo_db []))
     = Some (Reply 201 True ''Post created''
          (PostData \<lparr>p_id = 4, p_user_id = 1, caption = replicate 2201 CHR ''a'',
             image_url = None, likes_count = 0, comments_count = 0, group_id = Some 1,
             p_created_at = 100\<rparr>))
   \<and> map (\<lambda>p. length (caption p))
        (posts (store (snd (create_group_post 1 1 (Some (replicate 2201 CHR ''a'')) None (Inr [])
          (request demo_db []))))) = [5, 5, 6, 2201]"
  by (simp add: createPostValidation_def create_group_post_def pool_connect_calm
      client_query_auto_calm select_member_def member_rows_def insert_post_def
      caption_or_empty_def request_def demo_db_def Let_def int4_def pg_text_def
      user_exists_def alice_def bob_def carol_def)

text \<open>
  Claim C9 at its failing input. The top-level route uploads before it touches the
  pool; the group route checks a client out first and releases it in \<^verbatim>\<open>finally\<close>,
  so the upload runs while the request holds a pooled connection.
\<close>

theorem group_post_upload_holds_client:
  "trace (snd (create_group_post 1 1 (Some ''hi'') (Some ''bytes'') (Inr ''/v1/x.png'')
          (request demo_db [])))
     = [Checkout, Statement, Upload, Statement, Checkin]
   \<and> upload_while_held 0
        (trace (snd (create_group_post 1 1 (Some ''hi'') (Some ''bytes'') (Inr ''/v1/x.png'')
          (request demo_db []))))"
  by (simp add: create_group_post_def pool_connect_calm
      client_query_auto_calm select_member_def member_rows_def insert_post_def
      uploadToCloudinary_def caption_or_empty_def request_def demo_db_def Let_def
      int4_def pg_text_def user_exists_def alice_def bob_def carol_def)

section \<open>Properties of group posts in the listings\<close>

text \<open>
  Claim C10. Every post created through the group-post route, whether the group is
  private or not, also appears outside its group. Whenever the route answers 201 with a
  post, the row carries the group's id and is appended to the posts; it is a row of the
  author's public listing, which shows it on some page and counts it in \<open>totalPosts\<close>,
  and it is a row of the feed of the author and of every follower of the author, which
  shows it on some page. The read queries filter on \<open>user_id\<close> and the follow edges
  only. The page size is any positive \<^verbatim>\<open>BIGINT\<close>, and the store is within its
  primary keys.
\<close>

theorem group_post_visible_outside_group:
  assumes "txn w = None" and "within_keys (store w)"
    and "fst (create_group_post uid gid cap file cloud w)
           = Some (Reply 201 True ''Post created'' (PostData p))"
    and "0 < limit" and "int8 limit"
  shows "let d' = store (snd (create_group_post uid gid cap file cloud w))
         in p_user_id p = uid \<and> group_id p = Some gid
          \<and> posts d' = posts (store w) @ [p]
          \<and> p \<in> set (user_posts_rows uid d')
          \<and> (\<forall>name. resolves_to name uid d' \<longrightarrow>
               (\<exists>page\<ge>1. \<exists>rows.
                  fst (get_user_posts name page limit (request d' []))
                    = Some (Reply 200 True [] (PostPage rows
                        (int (length (filter (\<lambda>q. p_user_id q = uid) (posts (store w)))) + 1)))
                  \<and> p \<in> set rows))
          \<and> (\<forall>f. f = uid \<or> \<lparr>follower_id = f, following_id = uid\<rparr> \<in> set (followers (store w))
                \<longrightarrow> p \<in> fst ` set (feed_rows f d')
                  \<and> (\<exists>page\<ge>1. \<exists>rows.
                        fst (get_feed f page limit (request d' [])) = Some (Reply 200 True [] (Feed rows))
                        \<and> p \<in> fst ` set rows))"
proof -
  define d' where "d' = store (snd (create_group_post uid gid cap file cloud w))"
  have d': "d' = with_post p (store w)"
    and pu: "p_user_id p = uid" and pg: "group_id p = Some gid"
    and ue: "user_exists uid (store w)"
    using create_group_post_created [OF assms(1,3)] by (simp_all add: d'_def)
  obtain u where u: "u \<in> set (users d')" "u_id u = p_user_id p"
    using user_exists_row [OF ue] by (auto simp: d' pu)
  have pin: "p \<in> set (posts d')" and ps: "posts d' = posts (store w) @ [p]" by (simp_all add: d')
  have keys: "distinct (map u_id (users d'))" and "length (posts d') \<le> 4294967297"
    using assms(2) by (simp_all add: within_keys_def d')
  then have few: "int (length (posts d')) < 2 ^ 53" by simp
  have rows: "p \<in> set (user_posts_rows uid d')"
    using in_user_posts_rows [OF pin u] by (simp add: pu)
  have total: "int (length (filter (\<lambda>q. p_user_id q = uid) (posts d')))
      = int (length (filter (\<lambda>q. p_user_id q = uid) (posts (store w)))) + 1"
    by (simp add: d' pu)
  have listing: "\<exists>page\<ge>1. \<exists>rows.
                fst (get_user_posts name page limit (request d' []))
                  = Some (Reply 200 True [] (PostPage rows
                      (int (length (filter (\<lambda>q. p_user_id q = uid) (posts (store w)))) + 1)))
                \<and> p \<in> set rows"
    if res: "resolves_to name uid d'" for name
  proof -
    have "int (length (user_posts_rows uid d')) \<le> int (length (posts d'))"
      using user_posts_rows_length [OF keys, of uid] by (rule of_nat_mono)
    with few have "int (length (user_posts_rows uid d')) < 2 ^ 53" by linarith
    then obtain page off rs where pg1: "1 \<le> page"
      and np: "number_param (js_offset page limit) = Some off"
      and lo: "limit_offset limit off (user_posts_rows uid d') = Some rs"
      and mem: "p \<in> set rs"
      using page_exists [OF rows assms(4,5)] by blast
    have "fst (get_user_posts name page limit (request d' []))
        = Some (Reply 200 True [] (PostPage rs
            (int (length (filter (\<lambda>p. p_user_id p = uid) (posts (store (request d' [])))))))) "
      by (rule get_user_posts_calm [OF _ _ np]) (use res lo in simp_all)
    then show ?thesis using pg1 mem total by auto
  qed
  have feed: "p \<in> fst ` set (feed_rows f d')
                  \<and> (\<exists>page\<ge>1. \<exists>rows.
                        fst (get_feed f page limit (request d' [])) = Some (Reply 200 True [] (Feed rows))
                        \<and> p \<in> fst ` set rows)"
    if "f = uid \<or> \<lparr>follower_id = f, following_id = uid\<rparr> \<in> set (followers (store w))" for f
  proof -
    have fr: "p \<in> fst ` set (feed_rows f d')"
      by (rule in_feed_rows [OF pin u]) (use that in \<open>auto simp: pu d'\<close>)
    then obtain r where r: "r \<in> set (feed_rows f d')" "fst r = p" by auto
    have "int (length (feed_rows f d')) \<le> int (length (posts d'))"
      using feed_rows_length [OF keys, of f] by (rule of_nat_mono)
    with few have "int (length (feed_rows f d')) < 2 ^ 53" by linarith
    then obtain page off rs where pg1: "1 \<le> page"
      and np: "number_param (js_offset page limit) = Some off"
      and lo: "limit_offset limit off (feed_rows f d') = Some rs"
      and mem: "r \<in> set rs"
      using page_exists [OF r(1) assms(4,5)] by blast
    have "fst (get_feed f page limit (request d' [])) = Some (Reply 200 True [] (Feed rs))"
      by (rule get_feed_calm [OF _ np]) (use lo in simp_all)
    moreover have "p \<in> fst ` set rs" using mem r(2) by force
    ultimately show ?thesis using fr pg1 by blast
  qed
  show ?thesis
    unfolding Let_def d'_def [symmetric]
    using pu pg ps rows listing feed by blast
qed

theorem group_post_visible_outside_group_witness:
  "fst (create_group_post 2 2 (Some ''secret'') None (Inr []) (request demo_db []))
     = Some (Reply 201 True ''Post created'' (PostData secret_post))
   \<and> group_id secret_post = Some 2
   \<and> \<not> public_group 2 demo_db
   \<and> (\<exists>page\<ge>1. \<exists>rows.
        fst (get_user_posts ''bob'' page 20
              (request (store (snd (create_group_post 2 2 (Some ''secret'') None (Inr [])
                 (request demo_db [])))) []))
          = Some (Reply 200 True [] (PostPage rows 3))
        \<and> secret_post \<in> set rows)
   \<and> (\<exists>page\<ge>1. \<exists>rows.
        fst (get_feed 1 page 20
              (request (store (snd (create_group_post 2 2 (Some ''secret'') None (Inr [])
                 (request demo_db [])))) []))
          = Some (Reply 200 True [] (Feed rows))
        \<and> secret_post \<in> fst ` set rows)"
proof -
  let ?d' = "store (snd (create_group_post 2 2 (Some ''secret'') None (Inr []) (request demo_db [])))"
  have made: "create_group_post 2 2 (Some ''secret'') None (Inr []) (request demo_db [])
     = (Some (Reply 201 True ''Post created'' (PostData secret_post)),
        \<lparr>store = with_post secret_post demo_db, txn = None, faults = [], clock = 100,
         trace = [Checkout, Statement, Statement, Checkin]\<rparr>)"
    by (simp add: create_group_post_def pool_connect_calm client_query_auto_calm
        select_member_def member_rows_def insert_post_def caption_or_empty_def request_def
        demo_db_def Let_def int4_def pg_text_def user_exists_def alice_def bob_def carol_def
        secret_post_def with_post_def client_release_def emit_def)
  have pre: "txn (request demo_db []) = None" "within_keys (store (request demo_db []))"
    "(0::int) < 20" "int8 20"
    by (simp_all add: within_keys_def demo_db_def alice_def bob_def carol_def int8_def)
  have st: "?d' = with_post secret_post demo_db" by (simp add: made)
  have res: "resolves_to ''bob'' 2 ?d'"
    unfolding st
    by (simp add: resolves_to_def select_active_user_def pg_text_def demo_db_def
        alice_def bob_def carol_def with_post_def)
  have n: "int (length (filter (\<lambda>q. p_user_id q = 2) (posts (store (request demo_db []))))) + 1 = 3"
    by (simp add: demo_db_def)
  have edge: "\<lparr>follower_id = 1, following_id = 2\<rparr> \<in> set (followers (store (request demo_db [])))"
    by (simp add: demo_db_def)
  have priv: "\<not> public_group 2 demo_db" "group_id secret_post = Some 2"
    by (simp_all add: public_group_def demo_db_def secret_post_def)
  have main: "(\<forall>name. resolves_to name 2 ?d' \<longrightarrow>
               (\<exists>page\<ge>1. \<exists>rows.
                  fst (get_user_posts name page 20 (request ?d' []))
                    = Some (Reply 200 True [] (PostPage rows
                        (int (length (filter (\<lambda>q. p_user_id q = 2)
                            (posts (store (request demo_db []))))) + 1)))
                  \<and> secret_post \<in> set rows))
          \<and> (\<forall>f. f = 2 \<or> \<lparr>follower_id = f, following_id = 2\<rparr>
                     \<in> set (followers (store (request demo_db [])))
                \<longrightarrow> secret_post \<in> fst ` set (feed_rows f ?d')
                  \<and> (\<exists>page\<ge>1. \<exists>rows.
                        fst (get_feed f page 20 (request ?d' [])) = Some (Reply 200 True [] (Feed rows))
                        \<and> secret_post \<in> fst ` set rows))"
    using group_post_visible_outside_group [OF pre(1,2) _ pre(3,4),
        of 2 2 "Some ''secret''" None "Inr []" secret_post]
    unfolding Let_def by (simp add: made)
  from main res edge priv show ?thesis
    unfolding n by (simp add: made)
qed

section \<open>Properties of the token service\<close>




section \<open>Properties of the counters\<close>

text \<open>
  Claim C1 at its failing input. In the small instance every counter equals the number
  of rows behind it. Bob deletes his comment 1, which belongs to post 1, through the
  route of post 2: the handler answers with success and deletes the comment, but lowers
  the counter of post 2 (floored at 0) and leaves the counter of post 1 at 1 with no
  comment left. The counters are no longer consistent.
\<close>

theorem delete_comment_wrong_counter:
  "counters_consistent demo_db
   \<and> fst (delete_comment_handler 2 2 1 (request demo_db []))
       = Some (Reply 200 True ''Comment deleted successfully'' NoData)
   \<and> comments (store (snd (delete_comment_handler 2 2 1 (request demo_db [])))) = []
   \<and> map comments_count (posts (store (snd (delete_comment_handler 2 2 1 (request demo_db [])))))
       = [1, 0, 0]
   \<and> \<not> counters_consistent (store (snd (delete_comment_handler 2 2 1 (request demo_db []))))"
  by (simp add: delete_comment_handler_def pool_connect_calm tx_begin_calm client_query_calm
      tx_commit_calm select_comment_by_id_def delete_comment_def decrement_comments_def
      counters_consistent_def post_counters_ok_def group_counter_ok_def demo_db_def int4_def)

text \<open>
  The other operations on posts keep the counters. From a well-formed store whose
  counters are consistent, and under every script of database faults, the store that
  \<open>like\<close>, \<open>unlike\<close>, \<open>addComment\<close> and \<open>deletePost\<close> leave is again well-formed
  with consistent counters; so is the store that \<open>deleteComment\<close> leaves when the post
  of the route is the post of the comment.
\<close>

theorem content_operations_keep_counters:
  assumes "sound (store w)" and "txn w = None"
  shows "sound (store (snd (like_post uid postId w)))
    \<and> sound (store (snd (unlike_post uid postId w)))
    \<and> sound (store (snd (add_comment uid postId commentText w)))
    \<and> sound (store (snd (delete_post_handler uid postId destroyed w)))
    \<and> (comment_on postId commentId (store w) \<longrightarrow>
         sound (store (snd (delete_comment_handler uid postId commentId w))))"
proof (intro conjI impI)
  show "sound (store (snd (like_post uid postId w)))"
    by (rule aon_keeps [OF like_post_effect [OF assms(2)] assms(1)])
      (rule like_effect_sound [OF assms(1)])
  show "sound (store (snd (unlike_post uid postId w)))"
    by (rule aon_keeps [OF unlike_post_effect [OF assms(2)] assms(1)])
      (rule unlike_effect_sound [OF assms(1)])
  show "sound (store (snd (add_comment uid postId commentText w)))"
    by (rule aon_keeps [OF add_comment_effect [OF assms(2)] assms(1)])
      (rule comment_effect_sound [OF assms(1)])
  show "sound (store (snd (delete_post_handler uid postId destroyed w)))"
    by (rule aon_keeps [OF delete_post_effect [OF assms(2)] assms(1)])
      (rule without_post_sound [OF assms(1)])
  show "sound (store (snd (delete_comment_handler uid postId commentId w)))"
    if "comment_on postId commentId (store w)"
    by (rule aon_keeps [OF delete_comment_effect [OF assms(2)] assms(1)])
      (rule uncomment_effect_sound [OF assms(1) that])
qed

theorem content_operations_keep_counters_witness:
  "sound (store (snd (like_post 1 2 (request demo_db [False, False, False, True]))))
   \<and> sound (store (snd (unlike_post 2 1 (request demo_db []))))
   \<and> sound (store (snd (add_comment 1 2 (Some ''hi'') (request demo_db []))))
   \<and> sound (store (snd (delete_post_handler 1 1 False (request demo_db []))))
   \<and> sound (store (snd (delete_comment_handler 2 1 1 (request demo_db []))))"
proof -
  have on: "comment_on 1 1 demo_db"
    by (simp add: comment_on_def demo_db_def)
  show ?thesis
    using content_operations_keep_counters [of "request demo_db [False, False, False, True]" 1 2]
      content_operations_keep_counters [of "request demo_db []" 2 1 _ _ 1]
      content_operations_keep_counters [of "request demo_db []" 1 2 "Some ''hi''"]
      content_operations_keep_counters [of "request demo_db []" 1 1 _ False]
      demo_sound on
    by simp
qed

text \<open>
  The operations on groups keep the counters. From a well-formed store whose counters
  are consistent, and under every script of database faults, the store that
  \<open>createGroup\<close>, \<open>joinGroup\<close>, \<open>addMember\<close> and \<open>removeMember\<close> leave is again
  well-formed with consistent counters.
\<close>

theorem group_operations_keep_counters:
  assumes "sound (store w)" and "txn w = None"
  shows "sound (store (snd (create_group uid name private w)))
    \<and> sound (store (snd (join_group uid groupId w)))
    \<and> sound (store (snd (add_member uid groupId newUserId w)))
    \<and> sound (store (snd (remove_member uid groupId memberId w)))"
proof (intro conjI)
  show "sound (store (snd (create_group uid name private w)))"
    by (rule aon_keeps [OF create_group_atomic [OF assms(2)] assms(1)])
      (rule create_group_effect_sound [OF assms(1)])
  show "sound (store (snd (join_group uid groupId w)))"
    by (rule aon_keeps [OF join_group_effect [OF assms(2)] assms(1)])
      (rule join_effect_sound [OF assms(1)])
  show "sound (store (snd (add_member uid groupId newUserId w)))"
    by (rule aon_keeps [OF add_member_effect [OF assms(2)] assms(1)])
      (rule add_effect_sound [OF assms(1)])
  show "sound (store (snd (remove_member uid groupId memberId w)))"
    by (rule aon_keeps [OF remove_member_effect [OF assms(2)] assms(1)])
      (rule leave_effect_sound [OF assms(1)])
qed

theorem group_operations_keep_counters_witness:
  "sound (store (snd (create_group 3 (Some ''club'') True (request demo_db []))))
   \<and> sound (store (snd (join_group 2 1 (request demo_db [False, False, False, False, True]))))
   \<and> sound (store (snd (add_member 1 1 (Some 2) (request demo_db []))))
   \<and> sound (store (snd (remove_member 1 1 1 (request demo_db []))))"
  using group_operations_keep_counters [of "request demo_db []" 3 "Some ''club''" True]
    group_operations_keep_counters
      [of "request demo_db [False, False, False, False, True]" 2 _ _ 1]
    group_operations_keep_counters [of "request demo_db []" 1 _ _ 1 "Some 2" 1]
    demo_sound
  by simp

section \<open>Further properties of creating a post\<close>

text \<open>
  The top-level route rejects a caption of more than 2200 characters in its validation
  chain, before the upload and the insert: the world is untouched.
\<close>

theorem create_post_validates_caption:
  "2200 < length s \<longrightarrow>
     create_post uid (Some s) file cloud w
       = (Some (Reply 400 False ''Validation failed'' NoData), w)"
  by (simp add: create_post_def createPostValidation_def)

theorem create_post_validates_caption_witness:
  "create_post 1 (Some (replicate 2201 CHR ''a'')) (Some ''bytes'') (Inr ''/v1/x.png'')
       (request demo_db [])
     = (Some (Reply 400 False ''Validation failed'' NoData), request demo_db [])"
  using create_post_validates_caption
    [of "replicate 2201 CHR ''a''" 1 "Some ''bytes''" "Inr ''/v1/x.png''" "request demo_db []"]
  by simp

text \<open>
  When the image upload of the top-level route errors, no post row is inserted: the
  store is unchanged, no database statement is issued, and the answer is a failure with
  status 500.
\<close>

theorem upload_failure_writes_nothing:
  "store (snd (create_post uid cap file (Inl err) w)) = store w
   \<and> faults (snd (create_post uid cap file (Inl err) w)) = faults w
   \<and> Statement \<notin> set (drop (length (trace w)) (trace (snd (create_post uid cap file (Inl err) w))))
   \<and> (createPostValidation cap \<and> file \<noteq> None \<longrightarrow>
        (\<exists>r. fst (create_post uid cap file (Inl err) w) = Some r
           \<and> status r = 500 \<and> \<not> success r))"
  by (simp add: create_post_def uploadToCloudinary_def internal_error_def)

theorem upload_failure_writes_nothing_witness:
  "store (snd (create_post 1 (Some ''hi'') (Some ''bytes'') (Inl \<lparr>http_code = Some 400\<rparr>)
      (request demo_db []))) = demo_db
   \<and> (\<exists>r. fst (create_post 1 (Some ''hi'') (Some ''bytes'') (Inl \<lparr>http_code = Some 400\<rparr>)
      (request demo_db [])) = Some r \<and> status r = 500 \<and> \<not> success r)"
  using upload_failure_writes_nothing
    [of 1 "Some ''hi''" "Some ''bytes''" "\<lparr>http_code = Some 400\<rparr>" "request demo_db []"]
  by (simp add: createPostValidation_def request_def)

text \<open>
  The top-level route never uploads while it holds a pooled client: its trace is empty,
  the upload alone, or the upload followed by the one statement of \<^verbatim>\<open>pool.query\<close>.
\<close>

theorem create_post_upload_first:
  "trace (snd (create_post uid cap file cloud (request d fs)))
     \<in> {[], [Upload], [Upload, Statement]}
   \<and> \<not> upload_while_held 0 (trace (snd (create_post uid cap file cloud (request d fs))))"
  using create_post_trace [of uid cap "file" cloud "request d fs"]
  by auto

end
